theory Spec2Isabelle
  imports Main "HOL-Library.Word"
begin

section \<open>Data model\<close>

text \<open>
  The layer and manifest build pipeline of \<^verbatim>\<open>server/transform.go\<close>: the functions
  \<^verbatim>\<open>createModelBlob\<close> and \<^verbatim>\<open>CreateCommunityModel\<close>. Go errors are values of
  \<open>error\<close>; a function that returns \<^verbatim>\<open>error\<close> returns \<open>error option\<close> (\<open>None\<close> is
  \<^verbatim>\<open>nil\<close>), one that returns a value and an error returns \<open>error + 'a\<close>.
\<close>

type_synonym bytes = string

datatype error =
    ErrNotExist  \<comment> \<open>an error for which \<^verbatim>\<open>errors.Is(err, os.ErrNotExist)\<close> holds\<close>
  | Err string  \<comment> \<open>any other error of a collaborator, with its message\<close>
  | DigestMismatch string string
      \<comment> \<open>\<^verbatim>\<open>fmt.Errorf("digest mismatch, expected %q, got %q", digest, layer.Digest)\<close>\<close>

text \<open>\<^verbatim>\<open>Layer\<close>: the fields the pipeline reads.\<close>

record Layer =
  MediaType :: string
  Digest :: string
  status :: string

text \<open>
  \<^verbatim>\<open>layerGGML\<close>: a layer with the decoded model it was parsed from (\<^verbatim>\<open>nil\<close> is
  \<open>None\<close>). The fields of \<open>GGML\<close> are the results of the accessors the pipeline calls:
  \<^verbatim>\<open>Name()\<close>, \<^verbatim>\<open>KV().Architecture()\<close>, \<^verbatim>\<open>KV().ParameterCount()\<close> and
  \<^verbatim>\<open>KV().FileType().String()\<close>.
\<close>

record GGML =
  Name :: string
  KV_Architecture :: string
  KV_ParameterCount :: "64 word"
  KV_FileType :: string

record layerGGML =
  Layer :: Layer
  GGML :: "GGML option"

record RootFS =
  Type :: string
  DiffIDs :: "string list"

record ConfigV2 =
  ModelFormat :: string
  ModelFamily :: string
  ModelFamilies :: "string list"
  ModelType :: string
  FileType :: string
  Architecture :: string
  OS :: string
  RootFS :: RootFS

record Message =
  Role :: string
  Content :: string

record Manifest =
  Config :: Layer
  Layers :: "Layer list"

text \<open>
  The state the pipeline works on. \<open>fs\<close> is durable storage: a path holds content
  (\<open>Inr\<close>), does not exist (\<open>Inl ErrNotExist\<close>) or cannot be accessed (another error).
  \<open>intermediateBlobs\<close> is the process-wide alias cache. \<open>manifests\<close> is the manifest store,
  by name, with the same three states as a path. \<open>progress\<close> lists the statuses passed to
  the progress callback \<^verbatim>\<open>fn\<close>, oldest first. \<open>pruned\<close> lists the manifests on which
  \<^verbatim>\<open>RemoveLayers\<close> was invoked.
\<close>

record world =
  fs :: "string \<Rightarrow> error + bytes"
  intermediateBlobs :: "string \<rightharpoonup> string"
  manifests :: "string \<Rightarrow> error + Manifest"
  progress :: "string list"
  pruned :: "Manifest list"

text \<open>
  The collaborators whose code is outside \<^verbatim>\<open>transform.go\<close>, as parameters. A Go
  \<^verbatim>\<open>map[string]any\<close> is the list of its entries (distinct keys, looked up with
  \<open>map_of\<close>); \<open>'v\<close> is the type of the decoded JSON values. \<open>parseFromFile\<close> takes
  the accumulated base layers, the content of the blob and its digest, and returns the
  statuses it reported and its result.
\<close>

record 'v env =
  GetBlobsPath :: "string \<Rightarrow> error + string"
  sha256sum :: "bytes \<Rightarrow> string"
  parseFromFile :: "layerGGML list \<Rightarrow> bytes \<Rightarrow> string \<Rightarrow> string list \<times> (error + layerGGML list)"
  Decode_params :: "bytes \<Rightarrow> error + (string \<times> 'v) list"
  Encode_messages :: "Message list \<Rightarrow> error + bytes"
  Encode_params :: "(string \<times> 'v) list \<Rightarrow> error + bytes"
  Encode_config :: "ConfigV2 \<Rightarrow> error + bytes"
  HumanNumber :: "64 word \<Rightarrow> string"
  NoPrune :: bool
  RemoveLayers :: "(string \<Rightarrow> error + bytes) \<Rightarrow> (string \<Rightarrow> error + Manifest) \<Rightarrow> Manifest
    \<Rightarrow> error + (string \<Rightarrow> error + bytes)"

section \<open>Storage operations\<close>

definition os_Stat :: "world \<Rightarrow> string \<Rightarrow> error option" where
  "os_Stat w p = (case fs w p of Inl err \<Rightarrow> Some err | Inr _ \<Rightarrow> None)"

definition os_Open :: "world \<Rightarrow> string \<Rightarrow> error + bytes" where
  "os_Open w p = fs w p"

text \<open>
  Modelled from the spec: \<^verbatim>\<open>NewLayer\<close> is not in \<^verbatim>\<open>transform.go\<close>. It constructs a
  layer from a stream: the digest is computed from the content, the content is stored as
  a blob under that digest unless a blob is already there (a blob is created once and
  never rebound to other content), and the layer carries the digest, the media type asked
  for and a status message. It fails when the blob path cannot be resolved or written.
\<close>

definition NewLayer :: "'v env \<Rightarrow> world \<Rightarrow> bytes \<Rightarrow> string \<Rightarrow> error + (Layer \<times> world)" where
  "NewLayer env w r mediatype =
     (let digest = sha256sum env r in
      case GetBlobsPath env digest of
        Inl err \<Rightarrow> Inl err
      | Inr blob \<Rightarrow>
          (case fs w blob of
             Inr _ \<Rightarrow>
               Inr (\<lparr>MediaType = mediatype, Digest = digest,
                     status = ''using existing layer '' @ digest\<rparr>, w)
           | Inl err \<Rightarrow>
               if err = ErrNotExist
               then Inr (\<lparr>MediaType = mediatype, Digest = digest,
                          status = ''creating new layer '' @ digest\<rparr>,
                         w\<lparr>fs := (fs w)(blob := Inr r)\<rparr>)
               else Inl err))"

text \<open>
  Modelled from the spec: \<^verbatim>\<open>Layer.Open\<close> is not in \<^verbatim>\<open>transform.go\<close>. It opens the
  blob stored under the layer's digest.
\<close>

definition Layer_Open :: "'v env \<Rightarrow> world \<Rightarrow> Layer \<Rightarrow> error + bytes" where
  "Layer_Open env w layer =
     (case GetBlobsPath env (Digest layer) of
        Inl err \<Rightarrow> Inl err
      | Inr blob \<Rightarrow> os_Open w blob)"

section \<open>Blob ingestion: \<^verbatim>\<open>createModelBlob\<close>\<close>

text \<open>Lines 179 to 203: the existence check, the layer construction and the digest check.\<close>

definition createModelBlob_verify :: "'v env \<Rightarrow> world \<Rightarrow> string \<Rightarrow> bytes \<Rightarrow> world \<times> error option" where
  "createModelBlob_verify env w digest bin =
     (case GetBlobsPath env digest of
        Inl err \<Rightarrow> (w, Some err)
      | Inr path \<Rightarrow>
          (case os_Stat w path of
             None \<Rightarrow> (w, None)
           | Some err \<Rightarrow>
               if err \<noteq> ErrNotExist then (w, Some err)
               else
                 (case NewLayer env w bin [] of
                    Inl err \<Rightarrow> (w, None)
                  | Inr (layer, w') \<Rightarrow>
                      if Digest layer \<noteq> digest
                      then (w', Some (DigestMismatch digest (Digest layer)))
                      else (w', None))))"

text \<open>Lines 157 to 177, then the rest: the source file is opened, then the alias cache is consulted.\<close>

definition createModelBlob :: "'v env \<Rightarrow> world \<Rightarrow> string \<Rightarrow> string \<Rightarrow> world \<times> error option" where
  "createModelBlob env w digest file =
     (case os_Open w file of
        Inl err \<Rightarrow> (w, Some err)
      | Inr bin \<Rightarrow>
          (case intermediateBlobs w digest of
             None \<Rightarrow> createModelBlob_verify env w digest bin
           | Some ib \<Rightarrow>
               (case GetBlobsPath env ib of
                  Inl err \<Rightarrow> (w, Some err)
                | Inr p \<Rightarrow>
                    (case os_Stat w p of
                       None \<Rightarrow> (w, None)
                     | Some err \<Rightarrow>
                         if err = ErrNotExist
                         then createModelBlob_verify env
                                (w\<lparr>intermediateBlobs := (intermediateBlobs w)(digest := None)\<rparr>)
                                digest bin
                         else (w, Some err)))))"

section \<open>The build: \<^verbatim>\<open>CreateCommunityModel\<close>\<close>

text \<open>
  Lines 298 to 312: the alias lookup for one requested digest. The result is the digest
  to use and the state after the progress event, or the error returned.
\<close>

definition resolveCached :: "'v env \<Rightarrow> world \<Rightarrow> string \<Rightarrow> error + (string \<times> world)" where
  "resolveCached env w digest =
     (case intermediateBlobs w digest of
        None \<Rightarrow> Inr (digest, w)
      | Some ib \<Rightarrow>
          (case GetBlobsPath env ib of
             Inl err \<Rightarrow> Inl err
           | Inr p \<Rightarrow>
               (case os_Stat w p of
                  None \<Rightarrow> Inr (ib, w\<lparr>progress := progress w @ [''using cached layer '' @ ib]\<rparr>)
                | Some err \<Rightarrow> if err = ErrNotExist then Inr (digest, w) else Inl err)))"

text \<open>Lines 297 to 332: the loop over \<^verbatim>\<open>digestArr\<close>, accumulating \<^verbatim>\<open>baseLayers\<close>.\<close>

fun loadBaseLayers :: "'v env \<Rightarrow> world \<Rightarrow> string list \<Rightarrow> layerGGML list
    \<Rightarrow> world \<times> (error + layerGGML list)" where
  "loadBaseLayers env w [] baseLayers = (w, Inr baseLayers)"
| "loadBaseLayers env w (digest # digestArr) baseLayers =
     (case resolveCached env w digest of
        Inl err \<Rightarrow> (w, Inl err)
      | Inr (digest', w1) \<Rightarrow>
          (case GetBlobsPath env digest' of
             Inl err \<Rightarrow> (w1, Inl err)
           | Inr blobpath \<Rightarrow>
               (case os_Open w1 blobpath of
                  Inl err \<Rightarrow> (w1, Inl err)
                | Inr blob \<Rightarrow>
                    (case parseFromFile env baseLayers blob digest' of
                       (reported, Inl err) \<Rightarrow> (w1\<lparr>progress := progress w1 @ reported\<rparr>, Inl err)
                     | (reported, Inr baseLayers') \<Rightarrow>
                         loadBaseLayers env (w1\<lparr>progress := progress w1 @ reported\<rparr>)
                           digestArr baseLayers'))))"

text \<open>\<^verbatim>\<open>cmp.Or\<close> on two strings: the first argument that is not the zero value.\<close>

definition cmp_Or :: "string \<Rightarrow> string \<Rightarrow> string" where
  "cmp_Or a b = (if a \<noteq> [] then a else b)"

text \<open>Lines 280 to 286: the initial config; the fields not set are zero values.\<close>

definition initialConfig :: ConfigV2 where
  "initialConfig =
     \<lparr>ModelFormat = [], ModelFamily = [], ModelFamilies = [], ModelType = [], FileType = [],
      Architecture = ''amd64'', OS = ''linux'', RootFS = \<lparr>Type = ''layers'', DiffIDs = []\<rparr>\<rparr>"

text \<open>Lines 334 to 344: the loop over \<^verbatim>\<open>baseLayers\<close>, on the pair of \<^verbatim>\<open>config\<close> and \<^verbatim>\<open>layers\<close>.\<close>

fun collectBaseLayers :: "'v env \<Rightarrow> layerGGML list \<Rightarrow> ConfigV2 \<times> Layer list \<Rightarrow> ConfigV2 \<times> Layer list" where
  "collectBaseLayers env [] (config, layers) = (config, layers)"
| "collectBaseLayers env (baseLayer # baseLayers) (config, layers) =
     collectBaseLayers env baseLayers
       ((case GGML baseLayer of
           None \<Rightarrow> config
         | Some g \<Rightarrow>
             config\<lparr>ModelFormat := cmp_Or (ModelFormat config) (Name g),
                    ModelFamily := cmp_Or (ModelFamily config) (KV_Architecture g),
                    ModelType := cmp_Or (ModelType config) (HumanNumber env (KV_ParameterCount g)),
                    FileType := cmp_Or (FileType config) (KV_FileType g),
                    ModelFamilies := ModelFamilies config @ [KV_Architecture g]\<rparr>),
        layers @ [Layer baseLayer])"

text \<open>
  Lines 371 to 375: the inherited entries \<^verbatim>\<open>ps\<close> are put into \<^verbatim>\<open>parameters\<close>, a key
  that is already there keeps its value.
\<close>

fun mergeParams :: "(string \<times> 'v) list \<Rightarrow> (string \<times> 'v) list \<Rightarrow> (string \<times> 'v) list" where
  "mergeParams parameters [] = parameters"
| "mergeParams parameters ((k, v) # ps) =
     mergeParams (if map_of parameters k = None then parameters @ [(k, v)] else parameters) ps"

text \<open>
  Lines 347 to 381: the predicate given to \<^verbatim>\<open>slices.DeleteFunc\<close>. It reads the captured
  \<^verbatim>\<open>messages\<close> and updates the captured \<^verbatim>\<open>parameters\<close> and \<^verbatim>\<open>err2\<close>, which are the state
  it takes and returns.
\<close>

definition scanLayer :: "'v env \<Rightarrow> world \<Rightarrow> Message list \<Rightarrow> Layer
    \<Rightarrow> (string \<times> 'v) list \<times> error option \<Rightarrow> bool \<times> ((string \<times> 'v) list \<times> error option)" where
  "scanLayer env w messages layer st =
     (case st of (parameters, err2) \<Rightarrow>
        if MediaType layer = ''application/vnd.ollama.image.message''
        then (if length messages > 0 then (True, (parameters, err2)) else (False, (parameters, err2)))
        else if MediaType layer = ''application/vnd.ollama.image.params''
        then
          (case Layer_Open env w layer of
             Inl err \<Rightarrow> (False, (parameters, Some err))
           | Inr r \<Rightarrow>
               (case Decode_params env r of
                  Inl err \<Rightarrow> (False, (parameters, Some err))
                | Inr ps \<Rightarrow> (True, (mergeParams parameters ps, err2))))
        else (False, (parameters, err2)))"

text \<open>
  \<^verbatim>\<open>slices.DeleteFunc\<close>: the predicate is called once on each element, in order, and
  the elements it accepts are removed. The predicate's state is threaded through.
\<close>

fun DeleteFunc :: "('a \<Rightarrow> 's \<Rightarrow> bool \<times> 's) \<Rightarrow> 'a list \<Rightarrow> 's \<Rightarrow> 'a list \<times> 's" where
  "DeleteFunc del [] st = ([], st)"
| "DeleteFunc del (x # xs) st =
     (case del x st of
        (d, st') \<Rightarrow>
          (case DeleteFunc del xs st' of
             (ys, st'') \<Rightarrow> (if d then ys else x # ys, st'')))"

text \<open>Lines 387 to 399: the new message layer.\<close>

definition appendMessages :: "'v env \<Rightarrow> world \<Rightarrow> Message list \<Rightarrow> Layer list \<Rightarrow> world \<times> (error + Layer list)" where
  "appendMessages env w messages layers =
     (if length messages > 0
      then
        (case Encode_messages env messages of
           Inl err \<Rightarrow> (w, Inl err)
         | Inr b \<Rightarrow>
             (case NewLayer env w b ''application/vnd.ollama.image.messages'' of
                Inl err \<Rightarrow> (w, Inl err)
              | Inr (layer, w') \<Rightarrow> (w', Inr (layers @ [layer]))))
      else (w, Inr layers))"

text \<open>Lines 401 to 413: the new parameter layer.\<close>

definition appendParameters :: "'v env \<Rightarrow> world \<Rightarrow> (string \<times> 'v) list \<Rightarrow> Layer list \<Rightarrow> world \<times> (error + Layer list)" where
  "appendParameters env w parameters layers =
     (if length parameters > 0
      then
        (case Encode_params env parameters of
           Inl err \<Rightarrow> (w, Inl err)
         | Inr b \<Rightarrow>
             (case NewLayer env w b ''application/vnd.ollama.image.params'' of
                Inl err \<Rightarrow> (w, Inl err)
              | Inr (layer, w') \<Rightarrow> (w', Inr (layers @ [layer]))))
      else (w, Inr layers))"

text \<open>
  Lines 346 to 413, for any value of the variables \<^verbatim>\<open>messages\<close> and \<^verbatim>\<open>parameters\<close> at
  line 346: the scan, the deferred error, and the two new layers.
\<close>

definition mergeLayers :: "'v env \<Rightarrow> world \<Rightarrow> Message list \<Rightarrow> (string \<times> 'v) list \<Rightarrow> Layer list
    \<Rightarrow> world \<times> (error + Layer list)" where
  "mergeLayers env w messages parameters layers =
     (case DeleteFunc (scanLayer env w messages) layers (parameters, None) of
        (layers1, (parameters1, err2)) \<Rightarrow>
          (case err2 of
             Some err \<Rightarrow> (w, Inl err)
           | None \<Rightarrow>
               (case appendMessages env w messages layers1 of
                  (w1, Inl err) \<Rightarrow> (w1, Inl err)
                | (w1, Inr layers2) \<Rightarrow> appendParameters env w1 parameters1 layers2)))"

text \<open>
  Lines 280 to 420: the config and the final layer list. \<^verbatim>\<open>messages\<close> is declared at
  line 291 and \<^verbatim>\<open>parameters\<close> at line 292; nothing is added to either before line 346.
\<close>

definition assemble :: "'v env \<Rightarrow> world \<Rightarrow> string list \<Rightarrow> world \<times> (error + ConfigV2 \<times> Layer list)" where
  "assemble env w digestArr =
     (case loadBaseLayers env w digestArr [] of
        (w1, Inl err) \<Rightarrow> (w1, Inl err)
      | (w1, Inr baseLayers) \<Rightarrow>
          (case collectBaseLayers env baseLayers (initialConfig, []) of
             (config, layers) \<Rightarrow>
               (case mergeLayers env w1 [] [] layers of
                  (w2, Inl err) \<Rightarrow> (w2, Inl err)
                | (w2, Inr layers') \<Rightarrow>
                    (w2, Inr (config\<lparr>RootFS := (RootFS config)\<lparr>DiffIDs := map Digest layers'\<rparr>\<rparr>,
                              layers')))))"

text \<open>
  Modelled from the spec: \<^verbatim>\<open>ParseNamedManifest\<close> and \<^verbatim>\<open>WriteManifest\<close> are not in
  \<^verbatim>\<open>transform.go\<close>. The first reads the current manifest of a name, if any; the second
  writes a manifest of the config layer and the layers and makes it the current one in
  one step, and fails when the entry of the name cannot be accessed.
\<close>

definition ParseNamedManifest :: "world \<Rightarrow> string \<Rightarrow> error + Manifest" where
  "ParseNamedManifest w name = manifests w name"

definition WriteManifest :: "world \<Rightarrow> string \<Rightarrow> Layer \<Rightarrow> Layer list \<Rightarrow> error + world" where
  "WriteManifest w name config layers =
     (case manifests w name of
        Inl err \<Rightarrow>
          if err = ErrNotExist
          then Inr (w\<lparr>manifests := (manifests w)(name := Inr \<lparr>Config = config, Layers = layers\<rparr>)\<rparr>)
          else Inl err
      | Inr _ \<Rightarrow> Inr (w\<lparr>manifests := (manifests w)(name := Inr \<lparr>Config = config, Layers = layers\<rparr>)\<rparr>))"

text \<open>
  \<^verbatim>\<open>old.RemoveLayers()\<close>: the collaborator's garbage collection, on the blobs; the call
  is recorded in \<open>pruned\<close>.
\<close>

definition Manifest_RemoveLayers :: "'v env \<Rightarrow> world \<Rightarrow> Manifest \<Rightarrow> world \<times> error option" where
  "Manifest_RemoveLayers env w old =
     (case RemoveLayers env (fs w) (manifests w) old of
        Inl err \<Rightarrow> (w\<lparr>pruned := pruned w @ [old]\<rparr>, Some err)
      | Inr fs' \<Rightarrow> (w\<lparr>pruned := pruned w @ [old], fs := fs'\<rparr>, None))"

text \<open>Lines 432 to 436: the statuses of the layers and of the config layer are reported.\<close>

definition reportStatus :: "world \<Rightarrow> Layer list \<Rightarrow> world" where
  "reportStatus w layers = w\<lparr>progress := progress w @ filter (\<lambda>s. s \<noteq> []) (map status layers)\<rparr>"

text \<open>Lines 422 to 452: the config layer, the manifest write, the garbage collection.\<close>

definition publish :: "'v env \<Rightarrow> world \<Rightarrow> string \<Rightarrow> ConfigV2 \<Rightarrow> Layer list \<Rightarrow> world \<times> error option" where
  "publish env w name config layers =
     (case Encode_config env config of
        Inl err \<Rightarrow> (w, Some err)
      | Inr b \<Rightarrow>
          (case NewLayer env w b ''application/vnd.docker.container.image.v1+json'' of
             Inl err \<Rightarrow> (w, Some err)
           | Inr (configLayer, w1) \<Rightarrow>
               (let w2 = reportStatus w1 (layers @ [configLayer]);
                    old = (case ParseNamedManifest w2 name of Inl _ \<Rightarrow> None | Inr m \<Rightarrow> Some m);
                    w3 = w2\<lparr>progress := progress w2 @ [''writing manifest'']\<rparr>
                in case WriteManifest w3 name configLayer layers of
                     Inl err \<Rightarrow> (w3, Some err)
                   | Inr w4 \<Rightarrow>
                       (case (if \<not> NoPrune env \<and> old \<noteq> None
                              then Manifest_RemoveLayers env w4 (the old)
                              else (w4, None)) of
                          (w5, Some err) \<Rightarrow> (w5, Some err)
                        | (w5, None) \<Rightarrow> (w5\<lparr>progress := progress w5 @ [''success'']\<rparr>, None)))))"

definition CreateCommunityModel :: "'v env \<Rightarrow> world \<Rightarrow> string \<Rightarrow> string list \<Rightarrow> world \<times> error option" where
  "CreateCommunityModel env w name digestArr =
     (case assemble env w digestArr of
        (w1, Inl err) \<Rightarrow> (w1, Some err)
      | (w1, Inr (config, layers)) \<Rightarrow> publish env w1 name config layers)"

section \<open>Notions used to state the properties\<close>

text \<open>The two media types the scan of lines 347 to 381 distinguishes.\<close>

definition isMessageLayer :: "Layer \<Rightarrow> bool" where
  "isMessageLayer layer = (MediaType layer = ''application/vnd.ollama.image.message'')"

definition isParamsLayer :: "Layer \<Rightarrow> bool" where
  "isParamsLayer layer = (MediaType layer = ''application/vnd.ollama.image.params'')"

text \<open>Lines 358 to 369 on one layer: the overlay is opened and decoded.\<close>

definition decodeOverlay :: "'v env \<Rightarrow> world \<Rightarrow> Layer \<Rightarrow> error + (string \<times> 'v) list" where
  "decodeOverlay env w layer =
     (case Layer_Open env w layer of
        Inl err \<Rightarrow> Inl err
      | Inr r \<Rightarrow> Decode_params env r)"

text \<open>The entries a layer hands down: those of a parameter overlay that opens and decodes.\<close>

definition overlayEntries :: "'v env \<Rightarrow> world \<Rightarrow> Layer \<Rightarrow> (string \<times> 'v) list" where
  "overlayEntries env w layer =
     (if isParamsLayer layer
      then (case decodeOverlay env w layer of Inl _ \<Rightarrow> [] | Inr ps \<Rightarrow> ps)
      else [])"

text \<open>The error a layer raises in the scan: that of a parameter overlay that fails to open or decode.\<close>

definition overlayError :: "'v env \<Rightarrow> world \<Rightarrow> Layer \<Rightarrow> error option" where
  "overlayError env w layer =
     (if isParamsLayer layer
      then (case decodeOverlay env w layer of Inl err \<Rightarrow> Some err | Inr _ \<Rightarrow> None)
      else None)"

text \<open>Whether the scan removes a layer.\<close>

definition scanRemoves :: "'v env \<Rightarrow> world \<Rightarrow> Message list \<Rightarrow> Layer \<Rightarrow> bool" where
  "scanRemoves env w messages layer =
     (if isMessageLayer layer then messages \<noteq> []
      else isParamsLayer layer \<and> overlayError env w layer = None)"

text \<open>The inherited entries of a layer list, in scan order, and the errors met in scan order.\<close>

definition inheritedParams :: "'v env \<Rightarrow> world \<Rightarrow> Layer list \<Rightarrow> (string \<times> 'v) list" where
  "inheritedParams env w layers = concat (map (overlayEntries env w) layers)"

definition scanErrors :: "'v env \<Rightarrow> world \<Rightarrow> Layer list \<Rightarrow> error list" where
  "scanErrors env w layers = List.map_filter (overlayError env w) layers"

text \<open>
  The first non-empty string of a list, the empty string when there is none; and the
  decoded models of the base layers that have one, in processing order.
\<close>

definition firstNonEmpty :: "string list \<Rightarrow> string" where
  "firstNonEmpty xs = (case find (\<lambda>s. s \<noteq> []) xs of None \<Rightarrow> [] | Some s \<Rightarrow> s)"

definition contributed :: "layerGGML list \<Rightarrow> GGML list" where
  "contributed baseLayers = List.map_filter GGML baseLayers"

section \<open>A small concrete store and collaborators\<close>

text \<open>
  An instance to run the pipeline on. The digest of a content is the content behind the
  prefix \<^verbatim>\<open>sha256:\<close>, a blob lives at \<^verbatim>\<open>blobs/\<close> followed by its digest, and the parser
  yields one layer per blob, named by the blob's digest: a parameter overlay for a content
  that starts with a brace, a message layer for one that starts with a bracket, model
  weights otherwise. Decoded values are their JSON text.
\<close>

definition demo_parse :: "layerGGML list \<Rightarrow> bytes \<Rightarrow> string \<Rightarrow> string list \<times> (error + layerGGML list)" where
  "demo_parse baseLayers blob digest =
     ([''parsing '' @ digest],
      case blob of
        [] \<Rightarrow> Inl (Err ''unsupported content type'')
      | c # _ \<Rightarrow>
          Inr (baseLayers @
            [if c = CHR ''{''
             then \<lparr>Layer = \<lparr>MediaType = ''application/vnd.ollama.image.params'', Digest = digest,
                             status = []\<rparr>, GGML = None\<rparr>
             else if c = CHR ''[''
             then \<lparr>Layer = \<lparr>MediaType = ''application/vnd.ollama.image.message'', Digest = digest,
                             status = []\<rparr>, GGML = None\<rparr>
             else \<lparr>Layer = \<lparr>MediaType = ''application/vnd.ollama.image.model'', Digest = digest,
                             status = []\<rparr>,
                   GGML = Some \<lparr>Name = ''gguf'', KV_Architecture = ''llama'',
                                KV_ParameterCount = 8030261248, KV_FileType = ''Q4_0''\<rparr>\<rparr>]))"

definition demo_decode :: "bytes \<Rightarrow> error + (string \<times> string) list" where
  "demo_decode r =
     (if r = ''{a:1,b:2,}'' then Inr [(''a'', ''1''), (''b'', ''2'')]
      else if r = ''{t:0.7,}'' then Inr [(''t'', ''0.7'')]
      else Inl (Err (''invalid character in '' @ r)))"

definition demo_env :: "string env" where
  "demo_env =
     \<lparr>GetBlobsPath = (\<lambda>d. if d = [] then Inl (Err ''invalid digest format'') else Inr (''blobs/'' @ d)),
      sha256sum = (\<lambda>b. ''sha256:'' @ b),
      parseFromFile = demo_parse,
      Decode_params = demo_decode,
      Encode_messages = (\<lambda>ms. Inr (''['' @ concat (map (\<lambda>m. Role m @ '':'' @ Content m @ '','') ms) @ '']'')),
      Encode_params = (\<lambda>ps. Inr (''{'' @ concat (map (\<lambda>(k, v). k @ '':'' @ v @ '','') ps) @ ''}'')),
      Encode_config = (\<lambda>c. Inr (''config '' @ ModelFormat c @ concat (map (\<lambda>d. '' '' @ d) (DiffIDs (RootFS c))))),
      HumanNumber = (\<lambda>n. ''8.0B''),
      NoPrune = False,
      RemoveLayers = (\<lambda>files ms old. Inl (Err ''garbage collection failed''))\<rparr>"

text \<open>A store with the given files and aliases, no manifest and nothing reported yet.\<close>

definition demo_world :: "(string \<times> bytes) list \<Rightarrow> (string \<times> string) list \<Rightarrow> world" where
  "demo_world files aliases =
     \<lparr>fs = (\<lambda>p. case map_of files p of None \<Rightarrow> Inl ErrNotExist | Some c \<Rightarrow> Inr c),
      intermediateBlobs = map_of aliases,
      manifests = (\<lambda>name. Inl ErrNotExist),
      progress = [],
      pruned = []\<rparr>"


section \<open>Properties\<close>

lemmas pipeline_defs =
  os_Stat_def os_Open_def NewLayer_def Layer_Open_def createModelBlob_verify_def createModelBlob_def
  resolveCached_def cmp_Or_def initialConfig_def scanLayer_def appendMessages_def
  appendParameters_def mergeLayers_def assemble_def ParseNamedManifest_def WriteManifest_def
  Manifest_RemoveLayers_def reportStatus_def publish_def CreateCommunityModel_def Let_def

lemmas notion_defs =
  isMessageLayer_def isParamsLayer_def decodeOverlay_def overlayEntries_def overlayError_def
  scanRemoves_def inheritedParams_def scanErrors_def firstNonEmpty_def contributed_def

lemmas demo_defs = demo_parse_def demo_decode_def demo_env_def demo_world_def


subsection \<open>The scan\<close>

lemma scanLayer_eq:
  "scanLayer env w messages layer (parameters, err2) =
     (scanRemoves env w messages layer,
      (mergeParams parameters (overlayEntries env w layer),
       (case overlayError env w layer of Some err \<Rightarrow> Some err | None \<Rightarrow> err2)))"
  unfolding scanLayer_def scanRemoves_def overlayEntries_def overlayError_def decodeOverlay_def
    isMessageLayer_def isParamsLayer_def
  by (simp split: sum.splits)

lemma mergeParams_append:
  "mergeParams parameters (xs @ ys) = mergeParams (mergeParams parameters xs) ys"
  by (induction xs arbitrary: parameters) auto

lemma mergeParams_lookup:
  "map_of (mergeParams parameters ps) k =
     (case map_of parameters k of Some v \<Rightarrow> Some v | None \<Rightarrow> map_of ps k)"
proof (induction ps arbitrary: parameters)
  case Nil
  then show ?case by (simp split: option.splits)
next
  case (Cons e ps)
  obtain k' v' where e: "e = (k', v')" by (cases e)
  show ?case
    unfolding e by (simp add: Cons.IH map_add_def split: option.splits)
qed

lemma DeleteFunc_scan:
  "DeleteFunc (scanLayer env w messages) layers (parameters, err2) =
     (filter (\<lambda>l. \<not> scanRemoves env w messages l) layers,
      (mergeParams parameters (inheritedParams env w layers),
       (case scanErrors env w layers of [] \<Rightarrow> err2 | e # es \<Rightarrow> Some (last (e # es)))))"
proof (induction layers arbitrary: parameters err2)
  case Nil
  then show ?case by (simp add: inheritedParams_def scanErrors_def)
next
  case (Cons l layers)
  show ?case
    using Cons.IH
    by (simp add: scanLayer_eq mergeParams_append inheritedParams_def scanErrors_def
        split: option.splits list.splits)
qed

lemma scanErrors_Nil:
  "scanErrors env w layers = [] \<Longrightarrow> l \<in> set layers \<Longrightarrow> overlayError env w l = None"
  by (induction layers) (auto simp: scanErrors_def split: option.splits)

lemma filter_scanRemoves:
  assumes "scanErrors env w layers = []"
  shows "filter (\<lambda>l. \<not> scanRemoves env w messages l) layers =
         filter (\<lambda>l. \<not> isParamsLayer l \<and> \<not> (isMessageLayer l \<and> messages \<noteq> [])) layers"
proof (rule filter_cong[OF refl])
  fix l assume "l \<in> set layers"
  then have "overlayError env w l = None" using assms by (rule scanErrors_Nil[rotated])
  then show "(\<not> scanRemoves env w messages l) =
      (\<not> isParamsLayer l \<and> \<not> (isMessageLayer l \<and> messages \<noteq> []))"
    by (auto simp: scanRemoves_def isMessageLayer_def isParamsLayer_def)
qed

lemma NewLayer_result:
  "NewLayer env w r mediatype = Inr (layer, w') \<Longrightarrow>
     MediaType layer = mediatype \<and> Digest layer = sha256sum env r \<and>
     intermediateBlobs w' = intermediateBlobs w \<and> manifests w' = manifests w \<and>
     progress w' = progress w \<and> pruned w' = pruned w \<and>
     (fs w' = fs w \<or> (\<exists>blob. GetBlobsPath env (Digest layer) = Inr blob \<and> fs w' = (fs w)(blob := Inr r)))"
  unfolding NewLayer_def
  by (auto simp: Let_def split: sum.splits if_splits)

lemma appendMessages_result:
  assumes "appendMessages env w messages layers = (w', Inr layers')"
  shows "\<exists>new. layers' = layers @ new \<and>
      (if messages = [] then new = [] \<and> w' = w
       else \<exists>ml b. new = [ml] \<and> MediaType ml = ''application/vnd.ollama.image.messages'' \<and>
              Encode_messages env messages = Inr b \<and> Digest ml = sha256sum env b)"
  using assms unfolding appendMessages_def
  by (auto split: sum.splits if_splits dest!: NewLayer_result)

lemma appendParameters_result:
  assumes "appendParameters env w parameters layers = (w', Inr layers')"
  shows "\<exists>new. layers' = layers @ new \<and>
      (if parameters = [] then new = [] \<and> w' = w
       else \<exists>pl b. new = [pl] \<and> isParamsLayer pl \<and>
              Encode_params env parameters = Inr b \<and> Digest pl = sha256sum env b)"
  using assms unfolding appendParameters_def isParamsLayer_def
  by (auto split: sum.splits if_splits dest!: NewLayer_result)

lemma mergeLayers_success:
  assumes "mergeLayers env w messages parameters layers = (w', Inr final)"
  shows "scanErrors env w layers = [] \<and>
     (\<exists>newMessages newParams.
        final = filter (\<lambda>l. \<not> isParamsLayer l \<and> \<not> (isMessageLayer l \<and> messages \<noteq> [])) layers
                  @ newMessages @ newParams \<and>
        (if messages = [] then newMessages = []
         else \<exists>ml b. newMessages = [ml] \<and>
                MediaType ml = ''application/vnd.ollama.image.messages'' \<and>
                Encode_messages env messages = Inr b \<and> Digest ml = sha256sum env b) \<and>
        (if mergeParams parameters (inheritedParams env w layers) = [] then newParams = []
         else \<exists>pl b. newParams = [pl] \<and> isParamsLayer pl \<and>
                Encode_params env (mergeParams parameters (inheritedParams env w layers)) = Inr b \<and>
                Digest pl = sha256sum env b))"
proof -
  let ?kept = "filter (\<lambda>l. \<not> scanRemoves env w messages l) layers"
  let ?merged = "mergeParams parameters (inheritedParams env w layers)"
  have noerr: "scanErrors env w layers = []"
    using assms unfolding mergeLayers_def DeleteFunc_scan
    by (auto split: list.splits)
  from assms noerr obtain w1 layers2 where
    am: "appendMessages env w messages ?kept = (w1, Inr layers2)" and
    ap: "appendParameters env w1 ?merged layers2 = (w', Inr final)"
    unfolding mergeLayers_def DeleteFunc_scan
    by (auto split: prod.splits sum.splits)
  from appendMessages_result[OF am] obtain newMessages where
    nm: "layers2 = ?kept @ newMessages"
      "if messages = [] then newMessages = [] \<and> w1 = w
       else \<exists>ml b. newMessages = [ml] \<and> MediaType ml = ''application/vnd.ollama.image.messages'' \<and>
              Encode_messages env messages = Inr b \<and> Digest ml = sha256sum env b"
    by blast
  from appendParameters_result[OF ap] obtain newParams where
    np: "final = layers2 @ newParams"
      "if ?merged = [] then newParams = [] \<and> w' = w1
       else \<exists>pl b. newParams = [pl] \<and> isParamsLayer pl \<and>
              Encode_params env ?merged = Inr b \<and> Digest pl = sha256sum env b"
    by blast
  have "final = filter (\<lambda>l. \<not> isParamsLayer l \<and> \<not> (isMessageLayer l \<and> messages \<noteq> [])) layers
                  @ newMessages @ newParams"
    using nm(1) np(1) filter_scanRemoves[OF noerr] by simp
  moreover have "if messages = [] then newMessages = []
         else \<exists>ml b. newMessages = [ml] \<and>
                MediaType ml = ''application/vnd.ollama.image.messages'' \<and>
                Encode_messages env messages = Inr b \<and> Digest ml = sha256sum env b"
    using nm(2) by (auto split: if_splits)
  moreover have "if ?merged = [] then newParams = []
         else \<exists>pl b. newParams = [pl] \<and> isParamsLayer pl \<and>
                Encode_params env ?merged = Inr b \<and> Digest pl = sha256sum env b"
    using np(2) by (auto split: if_splits)
  ultimately show ?thesis using noerr by blast
qed

subsection \<open>The config\<close>

lemma collectBaseLayers_layers:
  "snd (collectBaseLayers env baseLayers (config, layers)) = layers @ map Layer baseLayers"
  by (induction baseLayers arbitrary: config layers) auto

lemma firstNonEmpty_Cons:
  "firstNonEmpty (x # xs) = cmp_Or x (firstNonEmpty xs)"
  by (simp add: firstNonEmpty_def cmp_Or_def)

lemma cmp_Or_assoc: "cmp_Or (cmp_Or a b) c = cmp_Or a (cmp_Or b c)"
  by (simp add: cmp_Or_def)

lemma contributed_Cons:
  "contributed (b # bs) = (case GGML b of None \<Rightarrow> contributed bs | Some g \<Rightarrow> g # contributed bs)"
  by (simp add: contributed_def split: option.splits)

lemma collectBaseLayers_ModelFormat:
  "ModelFormat (fst (collectBaseLayers env baseLayers (config, layers))) =
     cmp_Or (ModelFormat config) (firstNonEmpty (map Name (contributed baseLayers)))"
proof (induction baseLayers arbitrary: config layers)
  case Nil
  then show ?case by (simp add: contributed_def firstNonEmpty_def cmp_Or_def)
next
  case (Cons b bs)
  show ?case
    by (cases "GGML b") (simp_all add: Cons.IH contributed_Cons firstNonEmpty_Cons cmp_Or_assoc)
qed

lemma collectBaseLayers_ModelFamily:
  "ModelFamily (fst (collectBaseLayers env baseLayers (config, layers))) =
     cmp_Or (ModelFamily config) (firstNonEmpty (map KV_Architecture (contributed baseLayers)))"
proof (induction baseLayers arbitrary: config layers)
  case Nil
  then show ?case by (simp add: contributed_def firstNonEmpty_def cmp_Or_def)
next
  case (Cons b bs)
  show ?case
    by (cases "GGML b") (simp_all add: Cons.IH contributed_Cons firstNonEmpty_Cons cmp_Or_assoc)
qed

lemma collectBaseLayers_ModelType:
  "ModelType (fst (collectBaseLayers env baseLayers (config, layers))) =
     cmp_Or (ModelType config)
       (firstNonEmpty (map (\<lambda>g. HumanNumber env (KV_ParameterCount g)) (contributed baseLayers)))"
proof (induction baseLayers arbitrary: config layers)
  case Nil
  then show ?case by (simp add: contributed_def firstNonEmpty_def cmp_Or_def)
next
  case (Cons b bs)
  show ?case
    by (cases "GGML b") (simp_all add: Cons.IH contributed_Cons firstNonEmpty_Cons cmp_Or_assoc)
qed

lemma collectBaseLayers_FileType:
  "FileType (fst (collectBaseLayers env baseLayers (config, layers))) =
     cmp_Or (FileType config) (firstNonEmpty (map KV_FileType (contributed baseLayers)))"
proof (induction baseLayers arbitrary: config layers)
  case Nil
  then show ?case by (simp add: contributed_def firstNonEmpty_def cmp_Or_def)
next
  case (Cons b bs)
  show ?case
    by (cases "GGML b") (simp_all add: Cons.IH contributed_Cons firstNonEmpty_Cons cmp_Or_assoc)
qed

text \<open>
  C7: for every sequence of base layers, each of \<open>ModelFormat\<close>, \<open>ModelFamily\<close>,
  \<open>ModelType\<close> and \<open>FileType\<close> of the synthesized config is the first non-empty value
  that the decoded models of the base layers contribute, in processing order. A field that
  is already set keeps its value whatever the later layers contribute; in the initial
  config the four fields are empty.
\<close>

theorem config_first_write_wins:
  "ModelFormat (fst (collectBaseLayers env baseLayers (config, layers))) =
     (if ModelFormat config \<noteq> [] then ModelFormat config
      else firstNonEmpty (map Name (contributed baseLayers)))
   \<and> ModelFamily (fst (collectBaseLayers env baseLayers (config, layers))) =
     (if ModelFamily config \<noteq> [] then ModelFamily config
      else firstNonEmpty (map KV_Architecture (contributed baseLayers)))
   \<and> ModelType (fst (collectBaseLayers env baseLayers (config, layers))) =
     (if ModelType config \<noteq> [] then ModelType config
      else firstNonEmpty (map (\<lambda>g. HumanNumber env (KV_ParameterCount g)) (contributed baseLayers)))
   \<and> FileType (fst (collectBaseLayers env baseLayers (config, layers))) =
     (if FileType config \<noteq> [] then FileType config
      else firstNonEmpty (map KV_FileType (contributed baseLayers)))
   \<and> ModelFormat initialConfig = [] \<and> ModelFamily initialConfig = []
   \<and> ModelType initialConfig = [] \<and> FileType initialConfig = []"
  by (simp add: collectBaseLayers_ModelFormat collectBaseLayers_ModelFamily
      collectBaseLayers_ModelType collectBaseLayers_FileType cmp_Or_def initialConfig_def)

theorem config_first_write_wins_witness:
  "ModelFormat (fst (collectBaseLayers demo_env
       [\<lparr>Layer = \<lparr>MediaType = ''application/vnd.ollama.image.model'', Digest = ''sha256:A'', status = []\<rparr>,
         GGML = Some \<lparr>Name = ''gguf'', KV_Architecture = [], KV_ParameterCount = 7, KV_FileType = ''Q4_0''\<rparr>\<rparr>,
        \<lparr>Layer = \<lparr>MediaType = ''application/vnd.ollama.image.model'', Digest = ''sha256:B'', status = []\<rparr>,
         GGML = Some \<lparr>Name = ''other'', KV_Architecture = ''llama'', KV_ParameterCount = 8, KV_FileType = ''F16''\<rparr>\<rparr>]
       (initialConfig, []))) = ''gguf''
   \<and> ModelFamily (fst (collectBaseLayers demo_env
       [\<lparr>Layer = \<lparr>MediaType = ''application/vnd.ollama.image.model'', Digest = ''sha256:A'', status = []\<rparr>,
         GGML = Some \<lparr>Name = ''gguf'', KV_Architecture = [], KV_ParameterCount = 7, KV_FileType = ''Q4_0''\<rparr>\<rparr>,
        \<lparr>Layer = \<lparr>MediaType = ''application/vnd.ollama.image.model'', Digest = ''sha256:B'', status = []\<rparr>,
         GGML = Some \<lparr>Name = ''other'', KV_Architecture = ''llama'', KV_ParameterCount = 8, KV_FileType = ''F16''\<rparr>\<rparr>]
       (initialConfig, []))) = ''llama''"
  using config_first_write_wins [of demo_env
       "[\<lparr>Layer = \<lparr>MediaType = ''application/vnd.ollama.image.model'', Digest = ''sha256:A'', status = []\<rparr>,
         GGML = Some \<lparr>Name = ''gguf'', KV_Architecture = [], KV_ParameterCount = 7, KV_FileType = ''Q4_0''\<rparr>\<rparr>,
        \<lparr>Layer = \<lparr>MediaType = ''application/vnd.ollama.image.model'', Digest = ''sha256:B'', status = []\<rparr>,
         GGML = Some \<lparr>Name = ''other'', KV_Architecture = ''llama'', KV_ParameterCount = 8, KV_FileType = ''F16''\<rparr>\<rparr>]"
       initialConfig "[]"]
  by (simp add: initialConfig_def contributed_def firstNonEmpty_def)

subsection \<open>Blob ingestion\<close>

lemma createModelBlob_NewLayer_error:
  assumes "os_Open w file = Inr bin" and "intermediateBlobs w digest = None"
    and "GetBlobsPath env digest = Inr path" and "fs w path = Inl ErrNotExist"
    and "NewLayer env w bin [] = Inl err"
  shows "createModelBlob env w digest file = (w, None)"
  using assms by (simp add: createModelBlob_def createModelBlob_verify_def os_Stat_def)

text \<open>
  C5: every failure of layer construction during blob ingestion should reach the caller
  as an error. At line 196 \<^verbatim>\<open>createModelBlob\<close> returns \<^verbatim>\<open>nil\<close> when \<^verbatim>\<open>NewLayer\<close> fails.
  Here the source file holds \<^verbatim>\<open>A\<close>, the asserted digest \<^verbatim>\<open>sha256:B\<close> is not in the store,
  and the blob path of the content cannot be written: \<^verbatim>\<open>NewLayer\<close> fails with an
  input/output error and \<^verbatim>\<open>createModelBlob\<close> reports no error.
\<close>

theorem createModelBlob_swallows_NewLayer_error:
  "NewLayer demo_env
      ((demo_world [(''tmp/a.gguf'', ''A'')] [])
         \<lparr>fs := (fs (demo_world [(''tmp/a.gguf'', ''A'')] []))
                  (''blobs/sha256:A'' := Inl (Err ''input/output error''))\<rparr>)
      ''A'' [] = Inl (Err ''input/output error'')
   \<and> snd (createModelBlob demo_env
      ((demo_world [(''tmp/a.gguf'', ''A'')] [])
         \<lparr>fs := (fs (demo_world [(''tmp/a.gguf'', ''A'')] []))
                  (''blobs/sha256:A'' := Inl (Err ''input/output error''))\<rparr>)
      ''sha256:B'' ''tmp/a.gguf'') = None"
  by (simp add: createModelBlob_def createModelBlob_verify_def NewLayer_def os_Open_def os_Stat_def
      demo_env_def demo_world_def)

subsection \<open>The parameter merge\<close>

lemma scanLayer_overlay:
  assumes "isParamsLayer layer" and "decodeOverlay env w layer = Inr ps"
  shows "scanLayer env w messages layer (parameters, err2) = (True, (mergeParams parameters ps, err2))"
  using assms
  by (simp add: scanLayer_eq scanRemoves_def overlayEntries_def overlayError_def
      isParamsLayer_def isMessageLayer_def)

lemma scanErrors_Nil_decodes:
  assumes "scanErrors env w layers = []" and "l \<in> set layers" and "isParamsLayer l"
  shows "\<exists>ps. decodeOverlay env w l = Inr ps"
  using scanErrors_Nil[OF assms(1,2)] assms(3)
  by (auto simp: overlayError_def split: sum.splits)

text \<open>
  C1: the merge of inherited parameter overlays with the parameters of the new build.
  Merging entries \<open>ps\<close> into \<open>parameters\<close> keeps every value of \<open>parameters\<close> and adds
  exactly the keys of \<open>ps\<close> that \<open>parameters\<close> lacks. When lines 346 to 413 succeed, every
  inherited overlay was opened and decoded, the scan removed it and merged its entries in
  that way, and the final list is the inherited layers without the overlays (and without
  the inherited message layers when there are new messages), then the new message layer
  if any, then one new parameter overlay, of the merged map, if and only if that map is
  not empty.
\<close>

theorem parameter_merge:
  assumes "mergeLayers env w messages parameters layers = (w', Inr final)"
  shows "(\<forall>ps k. map_of (mergeParams parameters ps) k =
            (case map_of parameters k of Some v \<Rightarrow> Some v | None \<Rightarrow> map_of ps k))
    \<and> (\<forall>l \<in> set layers. isParamsLayer l \<longrightarrow>
          (\<exists>ps. decodeOverlay env w l = Inr ps \<and>
             (\<forall>ps0 err2. scanLayer env w messages l (ps0, err2) = (True, (mergeParams ps0 ps, err2)))))
    \<and> (\<exists>newMessages newParams.
          final = filter (\<lambda>l. \<not> isParamsLayer l \<and> \<not> (isMessageLayer l \<and> messages \<noteq> [])) layers
                    @ newMessages @ newParams
        \<and> (\<forall>l \<in> set newMessages. \<not> isParamsLayer l)
        \<and> (if mergeParams parameters (inheritedParams env w layers) = [] then newParams = []
           else \<exists>pl b. newParams = [pl] \<and> isParamsLayer pl \<and>
                  Encode_params env (mergeParams parameters (inheritedParams env w layers)) = Inr b \<and>
                  Digest pl = sha256sum env b))"
proof -
  from mergeLayers_success[OF assms] obtain newMessages newParams where
    noerr: "scanErrors env w layers = []" and
    fin: "final = filter (\<lambda>l. \<not> isParamsLayer l \<and> \<not> (isMessageLayer l \<and> messages \<noteq> [])) layers
                  @ newMessages @ newParams" and
    nm: "if messages = [] then newMessages = []
         else \<exists>ml b. newMessages = [ml] \<and>
                MediaType ml = ''application/vnd.ollama.image.messages'' \<and>
                Encode_messages env messages = Inr b \<and> Digest ml = sha256sum env b" and
    np: "if mergeParams parameters (inheritedParams env w layers) = [] then newParams = []
         else \<exists>pl b. newParams = [pl] \<and> isParamsLayer pl \<and>
                Encode_params env (mergeParams parameters (inheritedParams env w layers)) = Inr b \<and>
                Digest pl = sha256sum env b"
    by blast
  have law: "\<forall>ps k. map_of (mergeParams parameters ps) k =
            (case map_of parameters k of Some v \<Rightarrow> Some v | None \<Rightarrow> map_of ps k)"
    by (simp add: mergeParams_lookup)
  have each: "\<forall>l \<in> set layers. isParamsLayer l \<longrightarrow>
          (\<exists>ps. decodeOverlay env w l = Inr ps \<and>
             (\<forall>ps0 err2. scanLayer env w messages l (ps0, err2) = (True, (mergeParams ps0 ps, err2))))"
  proof (intro ballI impI)
    fix l assume l: "l \<in> set layers" "isParamsLayer l"
    from scanErrors_Nil_decodes[OF noerr l] obtain ps where ps: "decodeOverlay env w l = Inr ps" ..
    show "\<exists>ps. decodeOverlay env w l = Inr ps \<and>
             (\<forall>ps0 err2. scanLayer env w messages l (ps0, err2) = (True, (mergeParams ps0 ps, err2)))"
      using ps scanLayer_overlay[OF l(2) ps] by blast
  qed
  have msgs: "\<forall>l \<in> set newMessages. \<not> isParamsLayer l"
    using nm by (auto simp: isParamsLayer_def split: if_splits)
  show ?thesis using law each fin msgs np by blast
qed

theorem parameter_merge_witness:
  "mergeLayers demo_env (demo_world [(''blobs/sha256:{a:1,b:2,}'', ''{a:1,b:2,}'')] []) []
      [(''b'', ''3''), (''c'', ''4'')]
      [\<lparr>MediaType = ''application/vnd.ollama.image.params'', Digest = ''sha256:{a:1,b:2,}'', status = []\<rparr>]
    = ((demo_world [(''blobs/sha256:{a:1,b:2,}'', ''{a:1,b:2,}'')] [])
         \<lparr>fs := (fs (demo_world [(''blobs/sha256:{a:1,b:2,}'', ''{a:1,b:2,}'')] []))
                  (''blobs/sha256:{b:3,c:4,a:1,}'' := Inr ''{b:3,c:4,a:1,}'')\<rparr>,
       Inr [\<lparr>MediaType = ''application/vnd.ollama.image.params'', Digest = ''sha256:{b:3,c:4,a:1,}'',
             status = ''creating new layer sha256:{b:3,c:4,a:1,}''\<rparr>])
   \<and> mergeParams [(''b'', ''3''), (''c'', ''4'')]
        (inheritedParams demo_env (demo_world [(''blobs/sha256:{a:1,b:2,}'', ''{a:1,b:2,}'')] [])
           [\<lparr>MediaType = ''application/vnd.ollama.image.params'', Digest = ''sha256:{a:1,b:2,}'', status = []\<rparr>])
      = [(''b'', ''3''), (''c'', ''4''), (''a'', ''1'')]
   \<and> (\<exists>newMessages newParams.
          [\<lparr>MediaType = ''application/vnd.ollama.image.params'', Digest = ''sha256:{b:3,c:4,a:1,}'',
             status = ''creating new layer sha256:{b:3,c:4,a:1,}''\<rparr>]
          = filter (\<lambda>l. \<not> isParamsLayer l \<and> \<not> (isMessageLayer l \<and> ([]::Message list) \<noteq> []))
              [\<lparr>MediaType = ''application/vnd.ollama.image.params'', Digest = ''sha256:{a:1,b:2,}'', status = []\<rparr>]
            @ newMessages @ newParams
        \<and> (\<forall>l \<in> set newMessages. \<not> isParamsLayer l)
        \<and> (if [(''b'', ''3''), (''c'', ''4''), (''a'', ''1'')] = [] then newParams = []
           else \<exists>pl b. newParams = [pl] \<and> isParamsLayer pl \<and>
                  Encode_params demo_env [(''b'', ''3''), (''c'', ''4''), (''a'', ''1'')] = Inr b \<and>
                  Digest pl = sha256sum demo_env b))"
proof -
  let ?w = "demo_world [(''blobs/sha256:{a:1,b:2,}'', ''{a:1,b:2,}'')] []"
  let ?L = "\<lparr>MediaType = ''application/vnd.ollama.image.params'', Digest = ''sha256:{a:1,b:2,}'', status = []\<rparr>"
  have run: "mergeLayers demo_env ?w [] [(''b'', ''3''), (''c'', ''4'')] [?L]
    = (?w\<lparr>fs := (fs ?w)(''blobs/sha256:{b:3,c:4,a:1,}'' := Inr ''{b:3,c:4,a:1,}'')\<rparr>,
       Inr [\<lparr>MediaType = ''application/vnd.ollama.image.params'', Digest = ''sha256:{b:3,c:4,a:1,}'',
             status = ''creating new layer sha256:{b:3,c:4,a:1,}''\<rparr>])"
    by (simp add: pipeline_defs demo_defs)
  have merged: "mergeParams [(''b'', ''3''), (''c'', ''4'')] (inheritedParams demo_env ?w [?L])
      = [(''b'', ''3''), (''c'', ''4''), (''a'', ''1'')]"
    by (simp add: pipeline_defs notion_defs demo_defs)
  note final = parameter_merge[OF run, THEN conjunct2, THEN conjunct2, unfolded merged]
  show ?thesis
    by (intro conjI run merged final)
qed

subsection \<open>The scan on a message layer\<close>

lemma scanLayer_message:
  assumes "isMessageLayer l"
  shows "scanLayer env w messages l st = (messages \<noteq> [], st)"
  using assms by (cases st) (simp add: scanLayer_def isMessageLayer_def)

subsection \<open>The deferred error of the scan\<close>

lemma mergeLayers_error:
  assumes "scanErrors env w layers \<noteq> []"
  shows "mergeLayers env w messages parameters layers = (w, Inl (last (scanErrors env w layers)))"
  using assms unfolding mergeLayers_def DeleteFunc_scan
  by (simp split: list.splits)

lemma collectBaseLayers_initial:
  "\<exists>config. collectBaseLayers env baseLayers (initialConfig, []) = (config, map Layer baseLayers)"
  using collectBaseLayers_layers[of env baseLayers initialConfig "[]"]
  by (cases "collectBaseLayers env baseLayers (initialConfig, [])") simp

text \<open>
  C3, amended: when one or more inherited parameter overlays fail to open or decode, the
  scan still goes over all the layers: what it keeps, what it merges and the error it
  holds at the end account for every layer. The build then fails, nothing is published,
  and the error returned is the last one met in the scan (each failure overwrites
  \<^verbatim>\<open>err2\<close>), which is the first one only when a single overlay fails.
\<close>

theorem scan_error_deferred:
  assumes "loadBaseLayers env w digestArr [] = (w1, Inr baseLayers)"
    and "scanErrors env w1 (map Layer baseLayers) \<noteq> []"
  shows "DeleteFunc (scanLayer env w1 []) (map Layer baseLayers) ([], None) =
           (filter (\<lambda>l. \<not> scanRemoves env w1 [] l) (map Layer baseLayers),
            (mergeParams [] (inheritedParams env w1 (map Layer baseLayers)),
             Some (last (scanErrors env w1 (map Layer baseLayers)))))
    \<and> CreateCommunityModel env w name digestArr =
           (w1, Some (last (scanErrors env w1 (map Layer baseLayers))))"
proof -
  from collectBaseLayers_initial obtain config where
    c: "collectBaseLayers env baseLayers (initialConfig, []) = (config, map Layer baseLayers)" ..
  have scan: "DeleteFunc (scanLayer env w1 []) (map Layer baseLayers) ([], None) =
           (filter (\<lambda>l. \<not> scanRemoves env w1 [] l) (map Layer baseLayers),
            (mergeParams [] (inheritedParams env w1 (map Layer baseLayers)),
             Some (last (scanErrors env w1 (map Layer baseLayers)))))"
    using assms(2) unfolding DeleteFunc_scan by (simp split: list.splits)
  have "assemble env w digestArr = (w1, Inl (last (scanErrors env w1 (map Layer baseLayers))))"
    unfolding assemble_def by (simp add: assms(1) c mergeLayers_error[OF assms(2)])
  then have "CreateCommunityModel env w name digestArr =
           (w1, Some (last (scanErrors env w1 (map Layer baseLayers))))"
    unfolding CreateCommunityModel_def by simp
  with scan show ?thesis by simp
qed

theorem scan_error_deferred_witness:
  "loadBaseLayers demo_env
      (demo_world [(''blobs/sha256:{x'', ''{x''), (''blobs/sha256:{a:1,b:2,}'', ''{a:1,b:2,}'')] [])
      [''sha256:{x'', ''sha256:{a:1,b:2,}''] []
    = ((demo_world [(''blobs/sha256:{x'', ''{x''), (''blobs/sha256:{a:1,b:2,}'', ''{a:1,b:2,}'')] [])
          \<lparr>progress := [''parsing sha256:{x'', ''parsing sha256:{a:1,b:2,}'']\<rparr>,
       Inr [\<lparr>Layer = \<lparr>MediaType = ''application/vnd.ollama.image.params'', Digest = ''sha256:{x'',
                      status = []\<rparr>, GGML = None\<rparr>,
            \<lparr>Layer = \<lparr>MediaType = ''application/vnd.ollama.image.params'',
                      Digest = ''sha256:{a:1,b:2,}'', status = []\<rparr>, GGML = None\<rparr>])
   \<and> DeleteFunc (scanLayer demo_env
        ((demo_world [(''blobs/sha256:{x'', ''{x''), (''blobs/sha256:{a:1,b:2,}'', ''{a:1,b:2,}'')] [])
          \<lparr>progress := [''parsing sha256:{x'', ''parsing sha256:{a:1,b:2,}'']\<rparr>) [])
        [\<lparr>MediaType = ''application/vnd.ollama.image.params'', Digest = ''sha256:{x'', status = []\<rparr>,
         \<lparr>MediaType = ''application/vnd.ollama.image.params'', Digest = ''sha256:{a:1,b:2,}'',
          status = []\<rparr>]
        ([], None)
     = ([\<lparr>MediaType = ''application/vnd.ollama.image.params'', Digest = ''sha256:{x'', status = []\<rparr>],
        ([(''a'', ''1''), (''b'', ''2'')], Some (Err ''invalid character in {x'')))
   \<and> CreateCommunityModel demo_env
        (demo_world [(''blobs/sha256:{x'', ''{x''), (''blobs/sha256:{a:1,b:2,}'', ''{a:1,b:2,}'')] [])
        ''library/m'' [''sha256:{x'', ''sha256:{a:1,b:2,}'']
     = ((demo_world [(''blobs/sha256:{x'', ''{x''), (''blobs/sha256:{a:1,b:2,}'', ''{a:1,b:2,}'')] [])
          \<lparr>progress := [''parsing sha256:{x'', ''parsing sha256:{a:1,b:2,}'']\<rparr>,
        Some (Err ''invalid character in {x''))"
proof -
  let ?w = "demo_world [(''blobs/sha256:{x'', ''{x''), (''blobs/sha256:{a:1,b:2,}'', ''{a:1,b:2,}'')] []"
  let ?w1 = "?w\<lparr>progress := [''parsing sha256:{x'', ''parsing sha256:{a:1,b:2,}'']\<rparr>"
  let ?X = "\<lparr>MediaType = ''application/vnd.ollama.image.params'', Digest = ''sha256:{x'', status = []\<rparr>"
  let ?P = "\<lparr>MediaType = ''application/vnd.ollama.image.params'', Digest = ''sha256:{a:1,b:2,}'',
          status = []\<rparr>"
  have load: "loadBaseLayers demo_env ?w [''sha256:{x'', ''sha256:{a:1,b:2,}''] []
      = (?w1, Inr [\<lparr>Layer = ?X, GGML = None\<rparr>, \<lparr>Layer = ?P, GGML = None\<rparr>])"
    by (simp add: pipeline_defs demo_defs)
  have errs: "scanErrors demo_env ?w1 [?X, ?P] = [Err ''invalid character in {x'']"
    by (simp add: pipeline_defs notion_defs demo_defs)
  have kept: "filter (\<lambda>l. \<not> scanRemoves demo_env ?w1 [] l) [?X, ?P] = [?X]"
    by (simp add: pipeline_defs notion_defs demo_defs)
  have merged: "mergeParams [] (inheritedParams demo_env ?w1 [?X, ?P]) = [(''a'', ''1''), (''b'', ''2'')]"
    by (simp add: pipeline_defs notion_defs demo_defs)
  have ne: "scanErrors demo_env ?w1 (map Layer [\<lparr>Layer = ?X, GGML = None\<rparr>, \<lparr>Layer = ?P, GGML = None\<rparr>]) \<noteq> []"
    using errs by simp
  have ml: "map Layer [\<lparr>Layer = ?X, GGML = None\<rparr>, \<lparr>Layer = ?P, GGML = None\<rparr>] = [?X, ?P]"
    by simp
  note inst = scan_error_deferred[OF load ne, of "''library/m''", unfolded ml errs kept merged]
  have scan: "DeleteFunc (scanLayer demo_env ?w1 []) [?X, ?P] ([], None)
     = ([?X], ([(''a'', ''1''), (''b'', ''2'')], Some (Err ''invalid character in {x'')))"
    using inst[THEN conjunct1] by (simp del: DeleteFunc.simps)
  have build: "CreateCommunityModel demo_env ?w ''library/m'' [''sha256:{x'', ''sha256:{a:1,b:2,}'']
     = (?w1, Some (Err ''invalid character in {x''))"
    using inst[THEN conjunct2] by simp
  show ?thesis
    by (intro conjI load scan build)
qed

text \<open>
  C3 as stated fails: two inherited overlays fail to decode, with different errors, and
  the build returns the second error, not the first.
\<close>

theorem scan_error_first_counterexample:
  "snd (loadBaseLayers demo_env
      (demo_world [(''blobs/sha256:{x'', ''{x''), (''blobs/sha256:{y'', ''{y'')] [])
      [''sha256:{x'', ''sha256:{y''] [])
    = Inr [\<lparr>Layer = \<lparr>MediaType = ''application/vnd.ollama.image.params'', Digest = ''sha256:{x'',
                      status = []\<rparr>, GGML = None\<rparr>,
           \<lparr>Layer = \<lparr>MediaType = ''application/vnd.ollama.image.params'', Digest = ''sha256:{y'',
                      status = []\<rparr>, GGML = None\<rparr>]
   \<and> scanErrors demo_env
        (demo_world [(''blobs/sha256:{x'', ''{x''), (''blobs/sha256:{y'', ''{y'')] [])
        [\<lparr>MediaType = ''application/vnd.ollama.image.params'', Digest = ''sha256:{x'', status = []\<rparr>,
         \<lparr>MediaType = ''application/vnd.ollama.image.params'', Digest = ''sha256:{y'', status = []\<rparr>]
     = [Err ''invalid character in {x'', Err ''invalid character in {y'']
   \<and> snd (CreateCommunityModel demo_env
        (demo_world [(''blobs/sha256:{x'', ''{x''), (''blobs/sha256:{y'', ''{y'')] [])
        ''library/m'' [''sha256:{x'', ''sha256:{y''])
     = Some (Err ''invalid character in {y'')
   \<and> snd (CreateCommunityModel demo_env
        (demo_world [(''blobs/sha256:{x'', ''{x''), (''blobs/sha256:{y'', ''{y'')] [])
        ''library/m'' [''sha256:{x'', ''sha256:{y''])
     \<noteq> Some (Err ''invalid character in {x'')"
  by (simp add: pipeline_defs notion_defs demo_defs)

subsection \<open>What each step leaves unchanged\<close>

lemma resolveCached_frame:
  assumes "resolveCached env w digest = Inr (digest', w')"
  shows "fs w' = fs w \<and> intermediateBlobs w' = intermediateBlobs w \<and>
         manifests w' = manifests w \<and> pruned w' = pruned w"
  using assms unfolding resolveCached_def
  by (auto split: option.splits sum.splits if_splits)

lemma loadBaseLayers_frame:
  assumes "loadBaseLayers env w digestArr baseLayers = (w', r)"
  shows "fs w' = fs w \<and> intermediateBlobs w' = intermediateBlobs w \<and>
         manifests w' = manifests w \<and> pruned w' = pruned w"
  using assms
proof (induction digestArr arbitrary: w baseLayers)
  case Nil
  then show ?case by simp
next
  case (Cons digest digestArr)
  show ?case
  proof (cases "resolveCached env w digest")
    case (Inl err)
    with Cons.prems show ?thesis by simp
  next
    case (Inr dw)
    obtain digest' w1 where dw: "dw = (digest', w1)" by (cases dw)
    note f1 = resolveCached_frame[OF Inr[unfolded dw]]
    show ?thesis
    proof (cases "GetBlobsPath env digest'")
      case (Inl err)
      with Cons.prems Inr dw f1 show ?thesis by simp
    next
      case path: (Inr blobpath)
      show ?thesis
      proof (cases "os_Open w1 blobpath")
        case (Inl err)
        with Cons.prems Inr dw f1 path show ?thesis by simp
      next
        case blob: (Inr blob)
        obtain reported res where p: "parseFromFile env baseLayers blob digest' = (reported, res)"
          by (cases "parseFromFile env baseLayers blob digest'")
        show ?thesis
        proof (cases res)
          case (Inl err)
          with Cons.prems Inr dw f1 path blob p show ?thesis by auto
        next
          case (Inr baseLayers')
          with Cons.prems \<open>resolveCached env w digest = Inr dw\<close> dw path blob p
          have "loadBaseLayers env (w1\<lparr>progress := progress w1 @ reported\<rparr>) digestArr baseLayers' = (w', r)"
            by simp
          from Cons.IH[OF this] f1 show ?thesis by simp
        qed
      qed
    qed
  qed
qed

lemma NewLayer_frame:
  assumes "NewLayer env w r mediatype = Inr (layer, w')"
  shows "intermediateBlobs w' = intermediateBlobs w \<and> manifests w' = manifests w \<and>
         progress w' = progress w \<and> pruned w' = pruned w"
  using NewLayer_result[OF assms] by simp

lemma appendMessages_frame:
  assumes "appendMessages env w messages layers = (w', r)"
  shows "intermediateBlobs w' = intermediateBlobs w \<and> manifests w' = manifests w \<and>
         progress w' = progress w \<and> pruned w' = pruned w"
  using assms unfolding appendMessages_def
  by (auto split: if_splits sum.splits dest: NewLayer_frame)

lemma appendParameters_frame:
  assumes "appendParameters env w parameters layers = (w', r)"
  shows "intermediateBlobs w' = intermediateBlobs w \<and> manifests w' = manifests w \<and>
         progress w' = progress w \<and> pruned w' = pruned w"
  using assms unfolding appendParameters_def
  by (auto split: if_splits sum.splits dest: NewLayer_frame)

lemma mergeLayers_frame:
  assumes "mergeLayers env w messages parameters layers = (w', r)"
  shows "intermediateBlobs w' = intermediateBlobs w \<and> manifests w' = manifests w \<and>
         progress w' = progress w \<and> pruned w' = pruned w"
proof -
  obtain layers1 parameters1 err2 where
    d: "DeleteFunc (scanLayer env w messages) layers (parameters, None) = (layers1, (parameters1, err2))"
    by (metis prod_cases3)
  show ?thesis
  proof (cases err2)
    case (Some err)
    with assms d show ?thesis by (simp add: mergeLayers_def)
  next
    case None
    obtain w1 r1 where am: "appendMessages env w messages layers1 = (w1, r1)"
      by (cases "appendMessages env w messages layers1")
    note f1 = appendMessages_frame[OF am]
    show ?thesis
    proof (cases r1)
      case (Inl err)
      with assms d None am f1 show ?thesis by (simp add: mergeLayers_def)
    next
      case (Inr layers2)
      with assms d None am have "appendParameters env w1 parameters1 layers2 = (w', r)"
        by (simp add: mergeLayers_def)
      from appendParameters_frame[OF this] f1 show ?thesis by simp
    qed
  qed
qed

lemma assemble_frame:
  assumes "assemble env w digestArr = (w', r)"
  shows "intermediateBlobs w' = intermediateBlobs w \<and> manifests w' = manifests w \<and>
         pruned w' = pruned w"
proof -
  obtain w1 r1 where l: "loadBaseLayers env w digestArr [] = (w1, r1)"
    by (cases "loadBaseLayers env w digestArr []")
  note f1 = loadBaseLayers_frame[OF l]
  show ?thesis
  proof (cases r1)
    case (Inl err)
    with assms l f1 show ?thesis by (simp add: assemble_def)
  next
    case (Inr baseLayers)
    obtain config layers where c: "collectBaseLayers env baseLayers (initialConfig, []) = (config, layers)"
      by (cases "collectBaseLayers env baseLayers (initialConfig, [])")
    obtain w2 r2 where m: "mergeLayers env w1 [] [] layers = (w2, r2)"
      by (cases "mergeLayers env w1 [] [] layers")
    from assms l Inr c m have "w' = w2"
      by (auto simp: assemble_def split: sum.splits)
    with mergeLayers_frame[OF m] f1 show ?thesis by simp
  qed
qed

lemma WriteManifest_frame:
  assumes "WriteManifest w name config layers = Inr w'"
  shows "w' = w\<lparr>manifests := (manifests w)(name := Inr \<lparr>Config = config, Layers = layers\<rparr>)\<rparr>"
  using assms unfolding WriteManifest_def by (auto split: sum.splits if_splits)

lemma Manifest_RemoveLayers_frame:
  assumes "Manifest_RemoveLayers env w old = (w', r)"
  shows "intermediateBlobs w' = intermediateBlobs w \<and> manifests w' = manifests w \<and>
         progress w' = progress w \<and> pruned w' = pruned w @ [old]"
  using assms unfolding Manifest_RemoveLayers_def by (auto split: sum.splits)

lemma publish_intermediateBlobs:
  assumes "publish env w name config layers = (w', r)"
  shows "intermediateBlobs w' = intermediateBlobs w"
proof (cases "Encode_config env config")
  case (Inl err)
  with assms show ?thesis by (simp add: publish_def)
next
  case (Inr b)
  show ?thesis
  proof (cases "NewLayer env w b ''application/vnd.docker.container.image.v1+json''")
    case (Inl err)
    with assms Inr show ?thesis by (simp add: publish_def)
  next
    case nl: (Inr lw)
    obtain configLayer w1 where lw: "lw = (configLayer, w1)" by (cases lw)
    note f1 = NewLayer_frame[OF nl[unfolded lw]]
    let ?w3 = "(reportStatus w1 (layers @ [configLayer]))
        \<lparr>progress := progress (reportStatus w1 (layers @ [configLayer])) @ [''writing manifest'']\<rparr>"
    have i3: "intermediateBlobs ?w3 = intermediateBlobs w"
      using f1 by (simp add: reportStatus_def)
    show ?thesis
    proof (cases "WriteManifest ?w3 name configLayer layers")
      case (Inl err)
      with assms Inr nl lw i3 show ?thesis by (simp add: publish_def Let_def)
    next
      case wm: (Inr w4)
      have i4: "intermediateBlobs w4 = intermediateBlobs w"
        using WriteManifest_frame[OF wm] i3 by simp
      show ?thesis
        using assms Inr nl lw wm i4
        by (auto simp: publish_def Let_def split: if_splits prod.splits option.splits
            dest!: Manifest_RemoveLayers_frame)
    qed
  qed
qed

lemma CreateCommunityModel_intermediateBlobs:
  "intermediateBlobs (fst (CreateCommunityModel env w name digestArr)) = intermediateBlobs w"
proof -
  obtain w1 r1 where a: "assemble env w digestArr = (w1, r1)"
    by (cases "assemble env w digestArr")
  note f1 = assemble_frame[OF a]
  show ?thesis
  proof (cases r1)
    case (Inl err)
    with a f1 show ?thesis by (simp add: CreateCommunityModel_def)
  next
    case (Inr cl)
    obtain config layers where cl: "cl = (config, layers)" by (cases cl)
    obtain w' r where p: "publish env w1 name config layers = (w', r)"
      by (cases "publish env w1 name config layers")
    from publish_intermediateBlobs[OF p] a Inr cl p f1 show ?thesis
      by (simp add: CreateCommunityModel_def)
  qed
qed

subsection \<open>Ingestion and the alias cache\<close>

lemma NewLayer_intermediateBlobs_update:
  "NewLayer env (w\<lparr>intermediateBlobs := m\<rparr>) r mediatype =
     (case NewLayer env w r mediatype of
        Inl err \<Rightarrow> Inl err
      | Inr (layer, w') \<Rightarrow> Inr (layer, w'\<lparr>intermediateBlobs := m\<rparr>))"
  by (simp add: NewLayer_def Let_def split: sum.splits)

lemma createModelBlob_alias_passes:
  assumes "os_Open w file = Inr bin"
    and "\<forall>ib. intermediateBlobs w digest = Some ib \<longrightarrow>
           (\<exists>p. GetBlobsPath env ib = Inr p \<and> fs w p = Inl ErrNotExist)"
  shows "createModelBlob env w digest file =
         createModelBlob_verify env (w\<lparr>intermediateBlobs := (intermediateBlobs w)(digest := None)\<rparr>)
           digest bin"
proof (cases "intermediateBlobs w digest")
  case None
  then have "w\<lparr>intermediateBlobs := (intermediateBlobs w)(digest := None)\<rparr> = w"
    by (simp add: fun_upd_idem)
  with None assms(1) show ?thesis by (simp add: createModelBlob_def)
next
  case (Some ib)
  with assms(2) obtain p where "GetBlobsPath env ib = Inr p" "fs w p = Inl ErrNotExist" by blast
  with Some assms(1) show ?thesis by (simp add: createModelBlob_def os_Stat_def)
qed

text \<open>
  C4, amended: for every ingestion where the source file opens. An alias cache entry for
  the asserted digest decides first: if the blob path of its target does not resolve, or
  the stat of that path fails with an error other than not-exist, ingestion returns that
  error; if the target blob exists, ingestion returns no error and computes no digest; if
  the target blob does not exist, the entry is dropped and ingestion goes on as with no
  entry. With no entry, or a dropped one, and the blob path of the asserted digest
  resolving: if the asserted digest is not in the store (its blob path does not exist),
  layer construction succeeds and the digest of the layer, which is the digest computed
  from the content, differs from the asserted one, then ingestion returns the digest
  mismatch error with the asserted and the computed digest, the store is as layer
  construction left it, and the blob path of the asserted digest still does not exist
  provided it is not the blob path of the computed digest, under which alone the content
  is stored; if the asserted digest is already in the store, ingestion returns no error
  and leaves the store as it is.
\<close>

theorem ingest_verifies_digest:
  assumes "os_Open w file = Inr bin"
  shows "((\<forall>ib. intermediateBlobs w digest = Some ib \<longrightarrow>
             (\<exists>p. GetBlobsPath env ib = Inr p \<and> fs w p = Inl ErrNotExist)) \<and>
          GetBlobsPath env digest = Inr path \<and> fs w path = Inl ErrNotExist \<and>
          NewLayer env w bin [] = Inr (layer, w') \<and> Digest layer \<noteq> digest \<longrightarrow>
          createModelBlob env w digest file =
            (w'\<lparr>intermediateBlobs := (intermediateBlobs w)(digest := None)\<rparr>,
             Some (DigestMismatch digest (Digest layer))) \<and>
          Digest layer = sha256sum env bin \<and>
          (GetBlobsPath env (Digest layer) \<noteq> Inr path \<longrightarrow> fs w' path = Inl ErrNotExist))
    \<and> ((\<forall>ib. intermediateBlobs w digest = Some ib \<longrightarrow>
             (\<exists>p. GetBlobsPath env ib = Inr p \<and> fs w p = Inl ErrNotExist)) \<and>
          GetBlobsPath env digest = Inr path \<and> (\<exists>c. fs w path = Inr c) \<longrightarrow>
          createModelBlob env w digest file =
            (w\<lparr>intermediateBlobs := (intermediateBlobs w)(digest := None)\<rparr>, None))
    \<and> (intermediateBlobs w digest = None \<longrightarrow>
          w\<lparr>intermediateBlobs := (intermediateBlobs w)(digest := None)\<rparr> = w)
    \<and> (intermediateBlobs w digest = Some ib \<and> GetBlobsPath env ib = Inl err \<longrightarrow>
          createModelBlob env w digest file = (w, Some err))
    \<and> (intermediateBlobs w digest = Some ib \<and> GetBlobsPath env ib = Inr p \<and>
          fs w p = Inl err \<and> err \<noteq> ErrNotExist \<longrightarrow>
          createModelBlob env w digest file = (w, Some err))
    \<and> (intermediateBlobs w digest = Some ib \<and> GetBlobsPath env ib = Inr p \<and>
          (\<exists>c. fs w p = Inr c) \<longrightarrow>
          createModelBlob env w digest file = (w, None))"
proof -
  let ?w0 = "w\<lparr>intermediateBlobs := (intermediateBlobs w)(digest := None)\<rparr>"
  let ?passes = "\<forall>ib. intermediateBlobs w digest = Some ib \<longrightarrow>
             (\<exists>p. GetBlobsPath env ib = Inr p \<and> fs w p = Inl ErrNotExist)"
  have mismatch: "createModelBlob env w digest file =
            (w'\<lparr>intermediateBlobs := (intermediateBlobs w)(digest := None)\<rparr>,
             Some (DigestMismatch digest (Digest layer))) \<and>
          Digest layer = sha256sum env bin \<and>
          (GetBlobsPath env (Digest layer) \<noteq> Inr path \<longrightarrow> fs w' path = Inl ErrNotExist)"
    if passes: ?passes and path: "GetBlobsPath env digest = Inr path"
      and absent: "fs w path = Inl ErrNotExist" and nl: "NewLayer env w bin [] = Inr (layer, w')"
      and differs: "Digest layer \<noteq> digest"
  proof -
    note eq = createModelBlob_alias_passes[OF assms passes]
    note res = NewLayer_result[OF nl]
    have nl0: "NewLayer env ?w0 bin [] =
        Inr (layer, w'\<lparr>intermediateBlobs := (intermediateBlobs w)(digest := None)\<rparr>)"
      by (simp add: NewLayer_intermediateBlobs_update nl)
    have run: "createModelBlob env w digest file =
        (w'\<lparr>intermediateBlobs := (intermediateBlobs w)(digest := None)\<rparr>,
         Some (DigestMismatch digest (Digest layer)))"
      unfolding eq createModelBlob_verify_def
      using path absent differs by (simp add: os_Stat_def nl0)
    have "fs w' path = Inl ErrNotExist" if "GetBlobsPath env (Digest layer) \<noteq> Inr path"
      using res that absent by auto
    with run res show ?thesis by simp
  qed
  have present: "createModelBlob env w digest file = (?w0, None)"
    if passes: ?passes and path: "GetBlobsPath env digest = Inr path" and "\<exists>c. fs w path = Inr c"
    unfolding createModelBlob_alias_passes[OF assms passes] createModelBlob_verify_def
    using path that(3) by (auto simp: os_Stat_def)
  have same: "?w0 = w" if "intermediateBlobs w digest = None"
    using that by (simp add: fun_upd_idem)
  have unresolved: "createModelBlob env w digest file = (w, Some err)"
    if "intermediateBlobs w digest = Some ib" "GetBlobsPath env ib = Inl err"
    using assms that by (simp add: createModelBlob_def)
  have inaccessible: "createModelBlob env w digest file = (w, Some err)"
    if "intermediateBlobs w digest = Some ib" "GetBlobsPath env ib = Inr p"
      "fs w p = Inl err" "err \<noteq> ErrNotExist"
    using assms that by (simp add: createModelBlob_def os_Stat_def)
  have live: "createModelBlob env w digest file = (w, None)"
    if "intermediateBlobs w digest = Some ib" "GetBlobsPath env ib = Inr p" "\<exists>c. fs w p = Inr c"
    using assms that by (auto simp: createModelBlob_def os_Stat_def)
  from mismatch present same unresolved inaccessible live show ?thesis
    by blast
qed

theorem ingest_verifies_digest_witness:
  "createModelBlob demo_env (demo_world [(''tmp/a.gguf'', ''A'')] []) ''sha256:B'' ''tmp/a.gguf''
     = ((demo_world [(''tmp/a.gguf'', ''A'')] [])
          \<lparr>fs := (fs (demo_world [(''tmp/a.gguf'', ''A'')] []))(''blobs/sha256:A'' := Inr ''A'')\<rparr>,
        Some (DigestMismatch ''sha256:B'' ''sha256:A''))
   \<and> fs ((demo_world [(''tmp/a.gguf'', ''A'')] [])
          \<lparr>fs := (fs (demo_world [(''tmp/a.gguf'', ''A'')] []))(''blobs/sha256:A'' := Inr ''A'')\<rparr>)
        ''blobs/sha256:B'' = Inl ErrNotExist
   \<and> createModelBlob demo_env
        (demo_world [(''tmp/a.gguf'', ''A''), (''blobs/sha256:A'', ''A'')] []) ''sha256:A'' ''tmp/a.gguf''
     = (demo_world [(''tmp/a.gguf'', ''A''), (''blobs/sha256:A'', ''A'')] [], None)
   \<and> createModelBlob demo_env
        ((demo_world [(''tmp/a.gguf'', ''A''), (''blobs/sha256:A'', ''A'')] [(''sha256:A'', ''sha256:C'')])
           \<lparr>fs := (fs (demo_world [(''tmp/a.gguf'', ''A''), (''blobs/sha256:A'', ''A'')]
                          [(''sha256:A'', ''sha256:C'')]))
                    (''blobs/sha256:C'' := Inl (Err ''permission denied''))\<rparr>)
        ''sha256:A'' ''tmp/a.gguf''
     = ((demo_world [(''tmp/a.gguf'', ''A''), (''blobs/sha256:A'', ''A'')] [(''sha256:A'', ''sha256:C'')])
           \<lparr>fs := (fs (demo_world [(''tmp/a.gguf'', ''A''), (''blobs/sha256:A'', ''A'')]
                          [(''sha256:A'', ''sha256:C'')]))
                    (''blobs/sha256:C'' := Inl (Err ''permission denied''))\<rparr>,
        Some (Err ''permission denied''))"
proof -
  let ?w = "demo_world [(''tmp/a.gguf'', ''A'')] []"
  let ?w' = "?w\<lparr>fs := (fs ?w)(''blobs/sha256:A'' := Inr ''A'')\<rparr>"
  let ?l = "\<lparr>MediaType = [], Digest = ''sha256:A'', status = ''creating new layer sha256:A''\<rparr>"
  let ?v = "demo_world [(''tmp/a.gguf'', ''A''), (''blobs/sha256:A'', ''A'')] []"
  let ?u0 = "demo_world [(''tmp/a.gguf'', ''A''), (''blobs/sha256:A'', ''A'')] [(''sha256:A'', ''sha256:C'')]"
  let ?u = "?u0\<lparr>fs := (fs ?u0)(''blobs/sha256:C'' := Inl (Err ''permission denied''))\<rparr>"
  have o: "os_Open ?w ''tmp/a.gguf'' = Inr ''A''" by (simp add: pipeline_defs demo_defs)
  have n: "intermediateBlobs ?w ''sha256:B'' = None" by (simp add: demo_defs)
  have pre: "(\<forall>ib. intermediateBlobs ?w ''sha256:B'' = Some ib \<longrightarrow>
           (\<exists>p. GetBlobsPath demo_env ib = Inr p \<and> fs ?w p = Inl ErrNotExist)) \<and>
      GetBlobsPath demo_env ''sha256:B'' = Inr ''blobs/sha256:B'' \<and>
      fs ?w ''blobs/sha256:B'' = Inl ErrNotExist \<and> NewLayer demo_env ?w ''A'' [] = Inr (?l, ?w') \<and>
      Digest ?l \<noteq> ''sha256:B''"
    by (simp add: pipeline_defs demo_defs)
  have q: "GetBlobsPath demo_env (Digest ?l) \<noteq> Inr ''blobs/sha256:B''"
    by (simp add: demo_defs)
  have same: "?w'\<lparr>intermediateBlobs := (intermediateBlobs ?w)(''sha256:B'' := None)\<rparr> = ?w'"
    using n by (simp add: demo_defs)
  have dl: "Digest ?l = ''sha256:A''" by simp
  note m = ingest_verifies_digest[OF o, THEN conjunct1, rule_format, OF pre]
  note m1 = m[THEN conjunct1, unfolded same dl]
  note m2 = m[THEN conjunct2, THEN conjunct2, rule_format, OF q]
  have o': "os_Open ?v ''tmp/a.gguf'' = Inr ''A''" by (simp add: pipeline_defs demo_defs)
  have pre': "(\<forall>ib. intermediateBlobs ?v ''sha256:A'' = Some ib \<longrightarrow>
           (\<exists>p. GetBlobsPath demo_env ib = Inr p \<and> fs ?v p = Inl ErrNotExist)) \<and>
      GetBlobsPath demo_env ''sha256:A'' = Inr ''blobs/sha256:A'' \<and>
      (\<exists>c. fs ?v ''blobs/sha256:A'' = Inr c)"
    by (simp add: demo_defs)
  have n': "intermediateBlobs ?v ''sha256:A'' = None" by (simp add: demo_defs)
  note k = ingest_verifies_digest[OF o', THEN conjunct2]
  note k1 = k[THEN conjunct1, rule_format, OF pre', unfolded k[THEN conjunct2, THEN conjunct1, rule_format, OF n']]
  have o'': "os_Open ?u ''tmp/a.gguf'' = Inr ''A''" by (simp add: pipeline_defs demo_defs)
  have pre'': "intermediateBlobs ?u ''sha256:A'' = Some ''sha256:C'' \<and>
      GetBlobsPath demo_env ''sha256:C'' = Inr ''blobs/sha256:C'' \<and>
      fs ?u ''blobs/sha256:C'' = Inl (Err ''permission denied'') \<and> Err ''permission denied'' \<noteq> ErrNotExist"
    by (simp add: demo_defs)
  note e = ingest_verifies_digest[OF o'', THEN conjunct2, THEN conjunct2, THEN conjunct2, THEN conjunct2,
      THEN conjunct1, rule_format, OF pre'']
  show ?thesis
    by (intro conjI m1 m2 k1 e)
qed

text \<open>
  C4 as stated fails: the asserted digest is not in the store and the content of the
  source file has another digest, but the alias cache maps the asserted digest to a blob
  that exists, and ingestion returns no error.
\<close>

theorem ingest_alias_counterexample:
  "os_Open (demo_world [(''tmp/a.gguf'', ''A''), (''blobs/sha256:C'', ''C'')] [(''sha256:B'', ''sha256:C'')])
      ''tmp/a.gguf'' = Inr ''A''
   \<and> sha256sum demo_env ''A'' \<noteq> ''sha256:B''
   \<and> GetBlobsPath demo_env ''sha256:B'' = Inr ''blobs/sha256:B''
   \<and> os_Stat (demo_world [(''tmp/a.gguf'', ''A''), (''blobs/sha256:C'', ''C'')] [(''sha256:B'', ''sha256:C'')])
      ''blobs/sha256:B'' = Some ErrNotExist
   \<and> snd (createModelBlob demo_env
        (demo_world [(''tmp/a.gguf'', ''A''), (''blobs/sha256:C'', ''C'')] [(''sha256:B'', ''sha256:C'')])
        ''sha256:B'' ''tmp/a.gguf'') = None"
  by (simp add: pipeline_defs demo_defs)

text \<open>
  C6, amended. In \<^verbatim>\<open>createModelBlob\<close>: an alias whose target blob no longer exists does
  not fail the ingestion, is deleted from the alias cache, and ingestion goes on with the
  requested digest; an alias whose target exists ends the ingestion with no error, no
  progress event and no substitution. In \<^verbatim>\<open>CreateCommunityModel\<close>: an alias whose target
  no longer exists does not fail the build and the requested digest is used, but the
  entry stays in the cache (the build never changes the cache); an alias whose target
  exists has the target digest substituted and the progress event "using cached layer"
  with the target digest is emitted.
\<close>

theorem alias_resolution:
  assumes "intermediateBlobs w digest = Some ib" and "GetBlobsPath env ib = Inr p"
  shows "(fs w p = Inl ErrNotExist \<and> os_Open w file = Inr bin \<longrightarrow>
            createModelBlob env w digest file =
              createModelBlob_verify env
                (w\<lparr>intermediateBlobs := (intermediateBlobs w)(digest := None)\<rparr>) digest bin
            \<and> intermediateBlobs (fst (createModelBlob env w digest file)) digest = None)
    \<and> ((\<exists>c. fs w p = Inr c) \<and> os_Open w file = Inr bin \<longrightarrow>
            createModelBlob env w digest file = (w, None))
    \<and> (fs w p = Inl ErrNotExist \<longrightarrow> resolveCached env w digest = Inr (digest, w))
    \<and> ((\<exists>c. fs w p = Inr c) \<longrightarrow>
            resolveCached env w digest =
              Inr (ib, w\<lparr>progress := progress w @ [''using cached layer '' @ ib]\<rparr>))
    \<and> intermediateBlobs (fst (CreateCommunityModel env w name digestArr)) = intermediateBlobs w"
proof -
  let ?w0 = "w\<lparr>intermediateBlobs := (intermediateBlobs w)(digest := None)\<rparr>"
  have verify_cache: "intermediateBlobs (fst (createModelBlob_verify env ?w0 digest bin)) digest = None"
    for bin
    unfolding createModelBlob_verify_def
    by (auto split: sum.splits option.splits if_splits prod.splits dest!: NewLayer_frame)
  have stale: "createModelBlob env w digest file = createModelBlob_verify env ?w0 digest bin
            \<and> intermediateBlobs (fst (createModelBlob env w digest file)) digest = None"
    if "fs w p = Inl ErrNotExist" "os_Open w file = Inr bin"
  proof -
    have "createModelBlob env w digest file = createModelBlob_verify env ?w0 digest bin"
      using assms that by (simp add: createModelBlob_def os_Stat_def)
    with verify_cache[of bin] show ?thesis by simp
  qed
  have live: "createModelBlob env w digest file = (w, None)"
    if "\<exists>c. fs w p = Inr c" "os_Open w file = Inr bin"
    using assms that by (auto simp: createModelBlob_def os_Stat_def)
  have stale': "resolveCached env w digest = Inr (digest, w)" if "fs w p = Inl ErrNotExist"
    using assms that by (simp add: resolveCached_def os_Stat_def)
  have live': "resolveCached env w digest =
      Inr (ib, w\<lparr>progress := progress w @ [''using cached layer '' @ ib]\<rparr>)"
    if "\<exists>c. fs w p = Inr c"
    using assms that by (auto simp: resolveCached_def os_Stat_def)
  from stale live stale' live' CreateCommunityModel_intermediateBlobs[of env w name digestArr]
  show ?thesis by blast
qed

theorem alias_resolution_witness:
  "intermediateBlobs (fst (createModelBlob demo_env
        (demo_world [(''tmp/a.gguf'', ''A'')] [(''sha256:A'', ''sha256:gone'')])
        ''sha256:A'' ''tmp/a.gguf'')) ''sha256:A'' = None
   \<and> snd (createModelBlob demo_env
        (demo_world [(''tmp/a.gguf'', ''A'')] [(''sha256:A'', ''sha256:gone'')])
        ''sha256:A'' ''tmp/a.gguf'') = None
   \<and> resolveCached demo_env
        (demo_world [(''blobs/sha256:A'', ''A'')] [(''sha256:A'', ''sha256:gone'')]) ''sha256:A''
     = Inr (''sha256:A'', demo_world [(''blobs/sha256:A'', ''A'')] [(''sha256:A'', ''sha256:gone'')])
   \<and> createModelBlob demo_env
        (demo_world [(''tmp/a.gguf'', ''A''), (''blobs/sha256:C'', ''C'')] [(''sha256:B'', ''sha256:C'')])
        ''sha256:B'' ''tmp/a.gguf''
     = (demo_world [(''tmp/a.gguf'', ''A''), (''blobs/sha256:C'', ''C'')] [(''sha256:B'', ''sha256:C'')],
        None)
   \<and> resolveCached demo_env
        (demo_world [(''blobs/sha256:C'', ''C'')] [(''sha256:B'', ''sha256:C'')]) ''sha256:B''
     = Inr (''sha256:C'',
            (demo_world [(''blobs/sha256:C'', ''C'')] [(''sha256:B'', ''sha256:C'')])
              \<lparr>progress := progress (demo_world [(''blobs/sha256:C'', ''C'')] [(''sha256:B'', ''sha256:C'')])
                 @ [''using cached layer '' @ ''sha256:C'']\<rparr>)"
proof -
  let ?s = "demo_world [(''tmp/a.gguf'', ''A'')] [(''sha256:A'', ''sha256:gone'')]"
  let ?t = "demo_world [(''blobs/sha256:A'', ''A'')] [(''sha256:A'', ''sha256:gone'')]"
  let ?u = "demo_world [(''tmp/a.gguf'', ''A''), (''blobs/sha256:C'', ''C'')] [(''sha256:B'', ''sha256:C'')]"
  let ?v = "demo_world [(''blobs/sha256:C'', ''C'')] [(''sha256:B'', ''sha256:C'')]"
  have gone: "GetBlobsPath demo_env ''sha256:gone'' = Inr ''blobs/sha256:gone''"
    and there: "GetBlobsPath demo_env ''sha256:C'' = Inr ''blobs/sha256:C''"
    by (simp_all add: demo_defs)
  have s1: "intermediateBlobs ?s ''sha256:A'' = Some ''sha256:gone''"
    and s2: "fs ?s ''blobs/sha256:gone'' = Inl ErrNotExist \<and> os_Open ?s ''tmp/a.gguf'' = Inr ''A''"
    by (simp_all add: pipeline_defs demo_defs)
  note a = alias_resolution[OF s1 gone, THEN conjunct1, rule_format, OF s2]
  have run: "snd (createModelBlob_verify demo_env
      (?s\<lparr>intermediateBlobs := (intermediateBlobs ?s)(''sha256:A'' := None)\<rparr>) ''sha256:A'' ''A'') = None"
    by (simp add: pipeline_defs demo_defs)
  have a2: "snd (createModelBlob demo_env ?s ''sha256:A'' ''tmp/a.gguf'') = None"
    using run unfolding a[THEN conjunct1] .
  have t1: "intermediateBlobs ?t ''sha256:A'' = Some ''sha256:gone''"
    and t2: "fs ?t ''blobs/sha256:gone'' = Inl ErrNotExist"
    by (simp_all add: demo_defs)
  note b = alias_resolution[OF t1 gone, THEN conjunct2, THEN conjunct2, THEN conjunct1, rule_format, OF t2]
  have u1: "intermediateBlobs ?u ''sha256:B'' = Some ''sha256:C''"
    and u2: "(\<exists>c. fs ?u ''blobs/sha256:C'' = Inr c) \<and> os_Open ?u ''tmp/a.gguf'' = Inr ''A''"
    by (simp_all add: pipeline_defs demo_defs)
  note c = alias_resolution[OF u1 there, THEN conjunct2, THEN conjunct1, rule_format, OF u2]
  have v1: "intermediateBlobs ?v ''sha256:B'' = Some ''sha256:C''"
    and v2: "\<exists>c. fs ?v ''blobs/sha256:C'' = Inr c"
    by (simp_all add: demo_defs)
  note d = alias_resolution[OF v1 there, THEN conjunct2, THEN conjunct2, THEN conjunct2,
      THEN conjunct1, rule_format, OF v2]
  show ?thesis
    by (intro conjI a[THEN conjunct2] a2 b c d)
qed

text \<open>
  C6 as stated fails. The lookup of \<^verbatim>\<open>CreateCommunityModel\<close> meets an alias whose target
  no longer exists: the build succeeds with the requested digest, and the stale entry is
  still in the cache afterwards. The lookup of \<^verbatim>\<open>createModelBlob\<close> meets an alias whose
  target exists: no progress event is emitted.
\<close>

theorem alias_eviction_counterexample:
  "intermediateBlobs (demo_world [(''blobs/sha256:A'', ''A'')] [(''sha256:A'', ''sha256:gone'')])
      ''sha256:A'' = Some ''sha256:gone''
   \<and> os_Stat (demo_world [(''blobs/sha256:A'', ''A'')] [(''sha256:A'', ''sha256:gone'')])
        ''blobs/sha256:gone'' = Some ErrNotExist
   \<and> snd (CreateCommunityModel demo_env
        (demo_world [(''blobs/sha256:A'', ''A'')] [(''sha256:A'', ''sha256:gone'')])
        ''library/m'' [''sha256:A'']) = None
   \<and> intermediateBlobs (fst (CreateCommunityModel demo_env
        (demo_world [(''blobs/sha256:A'', ''A'')] [(''sha256:A'', ''sha256:gone'')])
        ''library/m'' [''sha256:A''])) ''sha256:A'' = Some ''sha256:gone''
   \<and> progress (fst (createModelBlob demo_env
        (demo_world [(''tmp/a.gguf'', ''A''), (''blobs/sha256:C'', ''C'')] [(''sha256:B'', ''sha256:C'')])
        ''sha256:B'' ''tmp/a.gguf'')) = []"
  by (simp add: pipeline_defs demo_defs)

subsection \<open>The final layer list and the published manifest\<close>

lemma assemble_success:
  assumes "assemble env w digestArr = (w2, Inr (config, layers))"
  shows "\<exists>w1 baseLayers config0.
      loadBaseLayers env w digestArr [] = (w1, Inr baseLayers) \<and>
      collectBaseLayers env baseLayers (initialConfig, []) = (config0, map Layer baseLayers) \<and>
      mergeLayers env w1 [] [] (map Layer baseLayers) = (w2, Inr layers) \<and>
      config = config0\<lparr>RootFS := (RootFS config0)\<lparr>DiffIDs := map Digest layers\<rparr>\<rparr>"
proof -
  obtain w1 r1 where l: "loadBaseLayers env w digestArr [] = (w1, r1)"
    by (cases "loadBaseLayers env w digestArr []")
  from assms l obtain baseLayers where r1: "r1 = Inr baseLayers"
    by (cases r1) (auto simp: assemble_def)
  from collectBaseLayers_initial obtain config0 where
    c: "collectBaseLayers env baseLayers (initialConfig, []) = (config0, map Layer baseLayers)" ..
  from assms l r1 c have
    "mergeLayers env w1 [] [] (map Layer baseLayers) = (w2, Inr layers) \<and>
     config = config0\<lparr>RootFS := (RootFS config0)\<lparr>DiffIDs := map Digest layers\<rparr>\<rparr>"
    by (auto simp: assemble_def split: prod.splits sum.splits)
  with l r1 c show ?thesis by blast
qed

lemma assemble_DiffIDs:
  assumes "assemble env w digestArr = (w2, Inr (config, layers))"
  shows "DiffIDs (RootFS config) = map Digest layers"
  using assemble_success[OF assms] by auto

lemma publish_cases:
  assumes "publish env w name config layers = (w', r)"
  shows "(manifests w' = manifests w \<and> pruned w' = pruned w \<and> r \<noteq> None) \<or>
     (\<exists>cl b w4.
        Encode_config env config = Inr b \<and> Digest cl = sha256sum env b \<and>
        manifests w4 = (manifests w)(name := Inr \<lparr>Config = cl, Layers = layers\<rparr>) \<and>
        pruned w4 = pruned w \<and>
        (if \<not> NoPrune env \<and> (\<exists>old. manifests w name = Inr old)
         then \<exists>old w5 r5. manifests w name = Inr old \<and>
                Manifest_RemoveLayers env w4 old = (w5, r5) \<and>
                (case r5 of Some err \<Rightarrow> w' = w5 \<and> r = Some err
                 | None \<Rightarrow> w' = w5\<lparr>progress := progress w5 @ [''success'']\<rparr> \<and> r = None)
         else w' = w4\<lparr>progress := progress w4 @ [''success'']\<rparr> \<and> r = None))"
proof (cases "Encode_config env config")
  case (Inl err)
  with assms show ?thesis by (auto simp: publish_def)
next
  case (Inr b)
  show ?thesis
  proof (cases "NewLayer env w b ''application/vnd.docker.container.image.v1+json''")
    case (Inl err)
    with assms Inr show ?thesis by (auto simp: publish_def)
  next
    case nl: (Inr lw)
    obtain cl w1 where lw: "lw = (cl, w1)" by (cases lw)
    note res = NewLayer_result[OF nl[unfolded lw]]
    from res have dg: "Digest cl = sha256sum env b" by simp
    let ?w2 = "reportStatus w1 (layers @ [cl])"
    let ?w3 = "?w2\<lparr>progress := progress ?w2 @ [''writing manifest'']\<rparr>"
    have f3: "manifests ?w3 = manifests w" "pruned ?w3 = pruned w" "manifests ?w2 = manifests w"
      using res by (simp_all add: reportStatus_def)
    show ?thesis
    proof (cases "WriteManifest ?w3 name cl layers")
      case (Inl err)
      with assms Inr nl lw f3 show ?thesis by (auto simp: publish_def Let_def)
    next
      case wm: (Inr w4)
      note w4 = WriteManifest_frame[OF wm]
      have f4: "manifests w4 = (manifests w)(name := Inr \<lparr>Config = cl, Layers = layers\<rparr>)"
        "pruned w4 = pruned w"
        using w4 f3 by simp_all
      have old: "(case ParseNamedManifest ?w2 name of Inl _ \<Rightarrow> None | Inr m \<Rightarrow> Some m) =
          (case manifests w name of Inl _ \<Rightarrow> None | Inr m \<Rightarrow> Some m)"
        by (simp add: ParseNamedManifest_def f3)
      show ?thesis
      proof (cases "\<not> NoPrune env \<and> (\<exists>old. manifests w name = Inr old)")
        case True
        then obtain m where m: "manifests w name = Inr m" and np: "\<not> NoPrune env" by blast
        obtain w5 r5 where gc: "Manifest_RemoveLayers env w4 m = (w5, r5)"
          by (cases "Manifest_RemoveLayers env w4 m")
        have "case r5 of Some err \<Rightarrow> w' = w5 \<and> r = Some err
                 | None \<Rightarrow> w' = w5\<lparr>progress := progress w5 @ [''success'']\<rparr> \<and> r = None"
          using assms Inr nl lw wm m np gc old
          by (auto simp: publish_def Let_def split: option.splits)
        with True m gc Inr dg f4 show ?thesis
          by (intro disjI2 exI[of _ cl] exI[of _ b] exI[of _ w4]) auto
      next
        case False
        then have "w' = w4\<lparr>progress := progress w4 @ [''success'']\<rparr> \<and> r = None"
          using assms Inr nl lw wm old
          by (auto simp: publish_def Let_def split: option.splits sum.splits)
        with False Inr dg f4 show ?thesis
          by (intro disjI2 exI[of _ cl] exI[of _ b] exI[of _ w4]) auto
      qed
    qed
  qed
qed

lemma publish_manifests:
  assumes "publish env w name config layers = (w', r)"
  shows "(manifests w' = manifests w \<and> r \<noteq> None) \<or>
     (\<exists>cl b. Encode_config env config = Inr b \<and> Digest cl = sha256sum env b \<and>
        manifests w' = (manifests w)(name := Inr \<lparr>Config = cl, Layers = layers\<rparr>))"
  using publish_cases[OF assms]
proof (elim disjE exE conjE)
  assume "manifests w' = manifests w" "r \<noteq> None"
  then show ?thesis by simp
next
  fix cl b w4
  assume e: "Encode_config env config = Inr b" "Digest cl = sha256sum env b"
    and m4: "manifests w4 = (manifests w)(name := Inr \<lparr>Config = cl, Layers = layers\<rparr>)"
    and rest: "if \<not> NoPrune env \<and> (\<exists>old. manifests w name = Inr old)
         then \<exists>old w5 r5. manifests w name = Inr old \<and>
                Manifest_RemoveLayers env w4 old = (w5, r5) \<and>
                (case r5 of Some err \<Rightarrow> w' = w5 \<and> r = Some err
                 | None \<Rightarrow> w' = w5\<lparr>progress := progress w5 @ [''success'']\<rparr> \<and> r = None)
         else w' = w4\<lparr>progress := progress w4 @ [''success'']\<rparr> \<and> r = None"
  have "manifests w' = manifests w4"
    using rest by (auto split: if_splits option.splits dest!: Manifest_RemoveLayers_frame)
  with e m4 show ?thesis by auto
qed

lemma publish_success:
  assumes "publish env w name config layers = (w', None)"
  shows "progress w' \<noteq> [] \<and> last (progress w') = ''success'' \<and>
         ((\<forall>old. manifests w name \<noteq> Inr old) \<longrightarrow> pruned w' = pruned w)"
  using publish_cases[OF assms]
  by (auto split: if_splits option.splits)

text \<open>
  C9: whatever a build returns, either it failed and left the manifest store as it was, or
  the store now holds, for the name, the manifest of the config layer and the final layer
  list, the config layer is named by the digest of the encoded config, and
  \<open>RootFS.DiffIDs\<close> of that config are, in order, the digests of the layers of the manifest.
\<close>

theorem published_DiffIDs:
  assumes "CreateCommunityModel env w name digestArr = (w', r)"
  shows "(manifests w' = manifests w \<and> r \<noteq> None) \<or>
     (\<exists>w1 config layers cl b.
        assemble env w digestArr = (w1, Inr (config, layers)) \<and>
        Encode_config env config = Inr b \<and> Digest cl = sha256sum env b \<and>
        manifests w' = (manifests w)(name := Inr \<lparr>Config = cl, Layers = layers\<rparr>) \<and>
        DiffIDs (RootFS config) = map Digest layers)"
proof -
  obtain w1 r1 where a: "assemble env w digestArr = (w1, r1)"
    by (cases "assemble env w digestArr")
  note f1 = assemble_frame[OF a]
  show ?thesis
  proof (cases r1)
    case (Inl err)
    with assms a f1 show ?thesis by (auto simp: CreateCommunityModel_def)
  next
    case (Inr cl)
    obtain config layers where cl: "cl = (config, layers)" by (cases cl)
    from assms a Inr cl have p: "publish env w1 name config layers = (w', r)"
      by (simp add: CreateCommunityModel_def)
    note d = assemble_DiffIDs[OF a[unfolded Inr cl]]
    from publish_manifests[OF p] show ?thesis
    proof
      assume "manifests w' = manifests w1 \<and> r \<noteq> None"
      with f1 show ?thesis by simp
    next
      assume "\<exists>c b. Encode_config env config = Inr b \<and> Digest c = sha256sum env b \<and>
        manifests w' = (manifests w1)(name := Inr \<lparr>Config = c, Layers = layers\<rparr>)"
      then obtain c b where "Encode_config env config = Inr b" "Digest c = sha256sum env b"
        "manifests w' = (manifests w1)(name := Inr \<lparr>Config = c, Layers = layers\<rparr>)" by blast
      with a Inr cl d f1 show ?thesis by auto
    qed
  qed
qed

theorem published_DiffIDs_witness:
  "snd (CreateCommunityModel demo_env
      (demo_world [(''blobs/sha256:A'', ''A''), (''blobs/sha256:{t:0.7,}'', ''{t:0.7,}'')] [])
      ''library/m'' [''sha256:A'', ''sha256:{t:0.7,}'']) = None
   \<and> (\<exists>w1 config layers cl b.
        assemble demo_env
          (demo_world [(''blobs/sha256:A'', ''A''), (''blobs/sha256:{t:0.7,}'', ''{t:0.7,}'')] [])
          [''sha256:A'', ''sha256:{t:0.7,}''] = (w1, Inr (config, layers)) \<and>
        Encode_config demo_env config = Inr b \<and> Digest cl = sha256sum demo_env b \<and>
        manifests (fst (CreateCommunityModel demo_env
            (demo_world [(''blobs/sha256:A'', ''A''), (''blobs/sha256:{t:0.7,}'', ''{t:0.7,}'')] [])
            ''library/m'' [''sha256:A'', ''sha256:{t:0.7,}'']))
          = (manifests (demo_world [(''blobs/sha256:A'', ''A''), (''blobs/sha256:{t:0.7,}'', ''{t:0.7,}'')] []))
              (''library/m'' := Inr \<lparr>Config = cl, Layers = layers\<rparr>) \<and>
        DiffIDs (RootFS config) = map Digest layers)
   \<and> manifests (fst (CreateCommunityModel demo_env
          (demo_world [(''blobs/sha256:A'', ''A''), (''blobs/sha256:{t:0.7,}'', ''{t:0.7,}'')] [])
          ''library/m'' [''sha256:A'', ''sha256:{t:0.7,}''])) ''library/m''
      = Inr \<lparr>Config = \<lparr>MediaType = ''application/vnd.docker.container.image.v1+json'',
                        Digest = ''sha256:config gguf sha256:A sha256:{t:0.7,}'',
                        status = ''creating new layer sha256:config gguf sha256:A sha256:{t:0.7,}''\<rparr>,
             Layers = [\<lparr>MediaType = ''application/vnd.ollama.image.model'', Digest = ''sha256:A'',
                         status = []\<rparr>,
                       \<lparr>MediaType = ''application/vnd.ollama.image.params'', Digest = ''sha256:{t:0.7,}'',
                         status = ''using existing layer sha256:{t:0.7,}''\<rparr>]\<rparr>"
proof -
  let ?w = "demo_world [(''blobs/sha256:A'', ''A''), (''blobs/sha256:{t:0.7,}'', ''{t:0.7,}'')] []"
  let ?run = "CreateCommunityModel demo_env ?w ''library/m'' [''sha256:A'', ''sha256:{t:0.7,}'']"
  have ok: "snd ?run = None"
    by (simp add: pipeline_defs demo_defs)
  have run: "?run = (fst ?run, snd ?run)" by simp
  from published_DiffIDs[OF run] ok have main:
    "\<exists>w1 config layers cl b.
        assemble demo_env ?w [''sha256:A'', ''sha256:{t:0.7,}''] = (w1, Inr (config, layers)) \<and>
        Encode_config demo_env config = Inr b \<and> Digest cl = sha256sum demo_env b \<and>
        manifests (fst ?run) = (manifests ?w)(''library/m'' := Inr \<lparr>Config = cl, Layers = layers\<rparr>) \<and>
        DiffIDs (RootFS config) = map Digest layers"
    by simp
  have stored: "manifests (fst ?run) ''library/m''
      = Inr \<lparr>Config = \<lparr>MediaType = ''application/vnd.docker.container.image.v1+json'',
                        Digest = ''sha256:config gguf sha256:A sha256:{t:0.7,}'',
                        status = ''creating new layer sha256:config gguf sha256:A sha256:{t:0.7,}''\<rparr>,
             Layers = [\<lparr>MediaType = ''application/vnd.ollama.image.model'', Digest = ''sha256:A'',
                         status = []\<rparr>,
                       \<lparr>MediaType = ''application/vnd.ollama.image.params'', Digest = ''sha256:{t:0.7,}'',
                         status = ''using existing layer sha256:{t:0.7,}''\<rparr>]\<rparr>"
    by (simp add: pipeline_defs demo_defs)
  show ?thesis
    by (intro conjI ok main stored)
qed

subsection \<open>Inherited message layers\<close>






subsection \<open>The message set and the two-file build\<close>

text \<open>
  C10: in a build the message set is empty when lines 346 to 413 run. On an inherited
  message layer the scan answers "keep"; no message layer is built and appended; and in
  the final layer list of a build the layers of either message media type (the one tested
  at line 349, the one named at line 393) are the inherited ones, all of them, the only
  new layer being a parameter overlay.
\<close>

theorem messages_always_empty:
  assumes "loadBaseLayers env w digestArr [] = (w1, Inr baseLayers)"
  shows "(\<forall>l st. isMessageLayer l \<longrightarrow> scanLayer env w1 [] l st = (False, st))
    \<and> (\<forall>layers. appendMessages env w1 [] layers = (w1, Inr layers))
    \<and> (\<forall>w2 config layers. assemble env w digestArr = (w2, Inr (config, layers)) \<longrightarrow>
          mergeLayers env w1 [] [] (map Layer baseLayers) = (w2, Inr layers) \<and>
          (\<exists>newParams. layers = filter (\<lambda>l. \<not> isParamsLayer l) (map Layer baseLayers) @ newParams \<and>
              (\<forall>l \<in> set newParams. isParamsLayer l)) \<and>
          filter isMessageLayer layers = filter isMessageLayer (map Layer baseLayers) \<and>
          filter (\<lambda>l. MediaType l = ''application/vnd.ollama.image.messages'') layers =
            filter (\<lambda>l. MediaType l = ''application/vnd.ollama.image.messages'') (map Layer baseLayers))"
proof -
  have scan: "\<forall>l st. isMessageLayer l \<longrightarrow> scanLayer env w1 [] l st = (False, st)"
    using scanLayer_message[of _ env w1 "[]"] by simp
  have app: "\<forall>layers. appendMessages env w1 [] layers = (w1, Inr layers)"
    by (simp add: appendMessages_def)
  have fin: "mergeLayers env w1 [] [] (map Layer baseLayers) = (w2, Inr layers) \<and>
          (\<exists>newParams. layers = filter (\<lambda>l. \<not> isParamsLayer l) (map Layer baseLayers) @ newParams \<and>
              (\<forall>l \<in> set newParams. isParamsLayer l)) \<and>
          filter isMessageLayer layers = filter isMessageLayer (map Layer baseLayers) \<and>
          filter (\<lambda>l. MediaType l = ''application/vnd.ollama.image.messages'') layers =
            filter (\<lambda>l. MediaType l = ''application/vnd.ollama.image.messages'') (map Layer baseLayers)"
    if a: "assemble env w digestArr = (w2, Inr (config, layers))" for w2 config layers
  proof -
    from assemble_success[OF a] assms have
      m: "mergeLayers env w1 [] [] (map Layer baseLayers) = (w2, Inr layers)" by auto
    from mergeLayers_success[OF m] obtain newMessages newParams where
      fin: "layers = filter (\<lambda>l. \<not> isParamsLayer l \<and> \<not> (isMessageLayer l \<and> ([]::Message list) \<noteq> []))
                (map Layer baseLayers) @ newMessages @ newParams" and
      nm: "newMessages = []" and
      np: "if mergeParams [] (inheritedParams env w1 (map Layer baseLayers)) = [] then newParams = []
         else \<exists>pl b. newParams = [pl] \<and> isParamsLayer pl \<and>
                Encode_params env (mergeParams [] (inheritedParams env w1 (map Layer baseLayers))) = Inr b \<and>
                Digest pl = sha256sum env b"
      by auto
    have l: "layers = filter (\<lambda>l. \<not> isParamsLayer l) (map Layer baseLayers) @ newParams"
      using fin nm by simp
    have p: "\<forall>l \<in> set newParams. isParamsLayer l"
      using np by (auto split: if_splits)
    have ex1: "\<And>l. isMessageLayer l \<Longrightarrow> \<not> isParamsLayer l"
      and ex2: "\<And>l. MediaType l = ''application/vnd.ollama.image.messages'' \<Longrightarrow> \<not> isParamsLayer l"
      by (simp_all add: isMessageLayer_def isParamsLayer_def)
    have k1: "filter isMessageLayer newParams = []"
      using p ex1 by (auto simp: filter_empty_conv)
    have k2: "filter (\<lambda>l. MediaType l = ''application/vnd.ollama.image.messages'') newParams = []"
      using p ex2 by (auto simp: filter_empty_conv)
    have c1: "filter isMessageLayer (filter (\<lambda>l. \<not> isParamsLayer l) xs) = filter isMessageLayer xs" for xs
      using ex1 by (induction xs) auto
    have c2: "filter (\<lambda>l. MediaType l = ''application/vnd.ollama.image.messages'')
                (filter (\<lambda>l. \<not> isParamsLayer l) xs) =
              filter (\<lambda>l. MediaType l = ''application/vnd.ollama.image.messages'') xs" for xs
      using ex2 by (induction xs) auto
    have m1: "filter isMessageLayer layers = filter isMessageLayer (map Layer baseLayers)"
      unfolding l filter_append k1 c1 by simp
    have m2: "filter (\<lambda>l. MediaType l = ''application/vnd.ollama.image.messages'') layers =
            filter (\<lambda>l. MediaType l = ''application/vnd.ollama.image.messages'') (map Layer baseLayers)"
      unfolding l filter_append k2 c2 by simp
    from m l p m1 m2 show ?thesis by blast
  qed
  from scan app fin show ?thesis by blast
qed

theorem messages_always_empty_witness:
  "loadBaseLayers demo_env
      (demo_world [(''blobs/sha256:[old]'', ''[old]''), (''blobs/sha256:A'', ''A'')] [])
      [''sha256:[old]'', ''sha256:A''] []
    = ((demo_world [(''blobs/sha256:[old]'', ''[old]''), (''blobs/sha256:A'', ''A'')] [])
         \<lparr>progress := [''parsing sha256:[old]'', ''parsing sha256:A'']\<rparr>,
       Inr [\<lparr>Layer = \<lparr>MediaType = ''application/vnd.ollama.image.message'', Digest = ''sha256:[old]'',
                      status = []\<rparr>, GGML = None\<rparr>,
            \<lparr>Layer = \<lparr>MediaType = ''application/vnd.ollama.image.model'', Digest = ''sha256:A'',
                      status = []\<rparr>,
             GGML = Some \<lparr>Name = ''gguf'', KV_Architecture = ''llama'',
                          KV_ParameterCount = 8030261248, KV_FileType = ''Q4_0''\<rparr>\<rparr>])
   \<and> snd (assemble demo_env
        (demo_world [(''blobs/sha256:[old]'', ''[old]''), (''blobs/sha256:A'', ''A'')] [])
        [''sha256:[old]'', ''sha256:A''])
     = Inr (\<lparr>ModelFormat = ''gguf'', ModelFamily = ''llama'', ModelFamilies = [''llama''],
             ModelType = ''8.0B'', FileType = ''Q4_0'', Architecture = ''amd64'', OS = ''linux'',
             RootFS = \<lparr>Type = ''layers'', DiffIDs = [''sha256:[old]'', ''sha256:A'']\<rparr>\<rparr>,
            [\<lparr>MediaType = ''application/vnd.ollama.image.message'', Digest = ''sha256:[old]'',
               status = []\<rparr>,
             \<lparr>MediaType = ''application/vnd.ollama.image.model'', Digest = ''sha256:A'',
               status = []\<rparr>])
   \<and> filter isMessageLayer
        [\<lparr>MediaType = ''application/vnd.ollama.image.message'', Digest = ''sha256:[old]'', status = []\<rparr>,
         \<lparr>MediaType = ''application/vnd.ollama.image.model'', Digest = ''sha256:A'', status = []\<rparr>]
     = filter isMessageLayer
        (map Layer
          [\<lparr>Layer = \<lparr>MediaType = ''application/vnd.ollama.image.message'', Digest = ''sha256:[old]'',
                      status = []\<rparr>, GGML = None\<rparr>,
           \<lparr>Layer = \<lparr>MediaType = ''application/vnd.ollama.image.model'', Digest = ''sha256:A'',
                      status = []\<rparr>,
            GGML = Some \<lparr>Name = ''gguf'', KV_Architecture = ''llama'',
                         KV_ParameterCount = 8030261248, KV_FileType = ''Q4_0''\<rparr>\<rparr>])"
proof -
  let ?w = "demo_world [(''blobs/sha256:[old]'', ''[old]''), (''blobs/sha256:A'', ''A'')] []"
  let ?w1 = "?w\<lparr>progress := [''parsing sha256:[old]'', ''parsing sha256:A'']\<rparr>"
  let ?M = "\<lparr>MediaType = ''application/vnd.ollama.image.message'', Digest = ''sha256:[old]'', status = []\<rparr>"
  let ?A = "\<lparr>MediaType = ''application/vnd.ollama.image.model'', Digest = ''sha256:A'', status = []\<rparr>"
  let ?bl = "[\<lparr>Layer = ?M, GGML = None\<rparr>,
              \<lparr>Layer = ?A, GGML = Some \<lparr>Name = ''gguf'', KV_Architecture = ''llama'',
                          KV_ParameterCount = 8030261248, KV_FileType = ''Q4_0''\<rparr>\<rparr>]"
  let ?config = "\<lparr>ModelFormat = ''gguf'', ModelFamily = ''llama'', ModelFamilies = [''llama''],
             ModelType = ''8.0B'', FileType = ''Q4_0'', Architecture = ''amd64'', OS = ''linux'',
             RootFS = \<lparr>Type = ''layers'', DiffIDs = [''sha256:[old]'', ''sha256:A'']\<rparr>\<rparr>"
  have load: "loadBaseLayers demo_env ?w [''sha256:[old]'', ''sha256:A''] [] = (?w1, Inr ?bl)"
    by (simp add: pipeline_defs demo_defs)
  have a: "assemble demo_env ?w [''sha256:[old]'', ''sha256:A''] = (?w1, Inr (?config, [?M, ?A]))"
    by (simp add: pipeline_defs demo_defs)
  note kept = messages_always_empty[OF load, THEN conjunct2, THEN conjunct2, rule_format, OF a,
      THEN conjunct2, THEN conjunct2, THEN conjunct1]
  have s: "snd (assemble demo_env ?w [''sha256:[old]'', ''sha256:A'']) = Inr (?config, [?M, ?A])"
    using a by simp
  show ?thesis
    by (intro conjI load s kept)
qed

lemma NewLayer_succeeds:
  assumes "GetBlobsPath env (sha256sum env r) = Inr p"
    and "fs w p = Inl ErrNotExist \<or> (\<exists>c. fs w p = Inr c)"
  shows "\<exists>layer w'. NewLayer env w r mediatype = Inr (layer, w')"
  using assms by (auto simp: NewLayer_def Let_def)

lemma publish_succeeds:
  assumes "Encode_config env config = Inr b"
    and "GetBlobsPath env (sha256sum env b) = Inr p"
    and "fs w p = Inl ErrNotExist \<or> (\<exists>c. fs w p = Inr c)"
    and "manifests w name = Inl ErrNotExist"
  shows "snd (publish env w name config layers) = None"
proof -
  from NewLayer_succeeds[OF assms(2,3)] obtain cl w1 where
    nl: "NewLayer env w b ''application/vnd.docker.container.image.v1+json'' = Inr (cl, w1)"
    by blast
  from NewLayer_result[OF nl] assms(4) have m: "manifests w1 name = Inl ErrNotExist" by simp
  show ?thesis
    by (simp add: publish_def assms(1) nl m Let_def ParseNamedManifest_def WriteManifest_def
        reportStatus_def)
qed

text \<open>
  C8, amended: a build from two digests, for which the parser yields one layer each,
  named by the digest and not a parameter overlay, with no manifest for the name, where
  the config encodes and the blob path of the encoded config resolves and is not in an
  error state. The build returns no error, the final layer list is these two layers, the
  manifest written holds them and the config layer, \<open>RootFS.DiffIDs\<close> of the config is
  the two digests in that order (the digest of the config layer is not among them),
  \<^verbatim>\<open>RemoveLayers\<close> is not invoked, and the last progress status is "success".
\<close>

theorem two_file_build:
  assumes "loadBaseLayers env w [da, db] [] = (w1, Inr [la, lb])"
    and "Digest (Layer la) = da" and "Digest (Layer lb) = db"
    and "\<not> isParamsLayer (Layer la)" and "\<not> isParamsLayer (Layer lb)"
    and "manifests w name = Inl ErrNotExist"
    and "config0 = fst (collectBaseLayers env [la, lb] (initialConfig, []))"
    and "Encode_config env (config0\<lparr>RootFS := (RootFS config0)\<lparr>DiffIDs := [da, db]\<rparr>\<rparr>) = Inr b"
    and "GetBlobsPath env (sha256sum env b) = Inr p"
    and "fs w p = Inl ErrNotExist \<or> (\<exists>c. fs w p = Inr c)"
  shows "\<exists>w' config cl.
      CreateCommunityModel env w name [da, db] = (w', None) \<and>
      assemble env w [da, db] = (w1, Inr (config, [Layer la, Layer lb])) \<and>
      DiffIDs (RootFS config) = [da, db] \<and>
      Encode_config env config = Inr b \<and> Digest cl = sha256sum env b \<and>
      manifests w' = (manifests w)(name := Inr \<lparr>Config = cl, Layers = [Layer la, Layer lb]\<rparr>) \<and>
      pruned w' = pruned w \<and>
      progress w' \<noteq> [] \<and> last (progress w') = ''success''"
proof -
  have c: "collectBaseLayers env [la, lb] (initialConfig, []) = (config0, map Layer [la, lb])"
    using collectBaseLayers_layers[of env "[la, lb]" initialConfig "[]"] assms(7)
    by (cases "collectBaseLayers env [la, lb] (initialConfig, [])") simp
  have none: "scanErrors env w1 [Layer la, Layer lb] = []"
    using assms(4,5) by (simp add: scanErrors_def overlayError_def)
  have inh: "inheritedParams env w1 [Layer la, Layer lb] = []"
    using assms(4,5) by (simp add: inheritedParams_def overlayEntries_def)
  have keep: "filter (\<lambda>l. \<not> scanRemoves env w1 [] l) [Layer la, Layer lb] = [Layer la, Layer lb]"
    using assms(4,5) by (simp add: scanRemoves_def)
  have m: "mergeLayers env w1 [] [] [Layer la, Layer lb] = (w1, Inr [Layer la, Layer lb])"
    unfolding mergeLayers_def DeleteFunc_scan none inh keep
    by (simp add: appendMessages_def appendParameters_def)
  let ?config = "config0\<lparr>RootFS := (RootFS config0)\<lparr>DiffIDs := [da, db]\<rparr>\<rparr>"
  have a: "assemble env w [da, db] = (w1, Inr (?config, [Layer la, Layer lb]))"
    using assms(1,2,3) c m by (simp add: assemble_def)
  note f1 = assemble_frame[OF a]
  note l1 = loadBaseLayers_frame[OF assms(1)]
  have store: "fs w1 p = Inl ErrNotExist \<or> (\<exists>c. fs w1 p = Inr c)"
    using assms(10) l1 by simp
  have prior: "manifests w1 name = Inl ErrNotExist"
    using assms(6) f1 by simp
  obtain w' r where p: "publish env w1 name ?config [Layer la, Layer lb] = (w', r)"
    by (cases "publish env w1 name ?config [Layer la, Layer lb]")
  from publish_succeeds[OF assms(8,9) store prior, of "[Layer la, Layer lb]"] p
  have r: "r = None" by simp
  from a p r have run: "CreateCommunityModel env w name [da, db] = (w', None)"
    by (simp add: CreateCommunityModel_def)
  from publish_manifests[OF p] r assms(8) obtain cl where
    e: "Digest cl = sha256sum env b"
      "manifests w' = (manifests w1)(name := Inr \<lparr>Config = cl, Layers = [Layer la, Layer lb]\<rparr>)"
    by auto
  have "\<forall>old. manifests w1 name \<noteq> Inr old"
    using prior by simp
  with publish_success[OF p[unfolded r]] have
    s: "progress w' \<noteq> []" "last (progress w') = ''success''" "pruned w' = pruned w1"
    by simp_all
  have d: "DiffIDs (RootFS ?config) = [da, db]" by simp
  show ?thesis
    using run a d assms(8) e s f1
    by (intro exI[of _ w'] exI[of _ ?config] exI[of _ cl]) simp
qed

theorem two_file_build_witness:
  "\<exists>w' config cl.
      CreateCommunityModel demo_env
        (demo_world [(''blobs/sha256:A'', ''A''), (''blobs/sha256:B'', ''B'')] [])
        ''library/m'' [''sha256:A'', ''sha256:B''] = (w', None) \<and>
      assemble demo_env (demo_world [(''blobs/sha256:A'', ''A''), (''blobs/sha256:B'', ''B'')] [])
        [''sha256:A'', ''sha256:B'']
      = ((demo_world [(''blobs/sha256:A'', ''A''), (''blobs/sha256:B'', ''B'')] [])
           \<lparr>progress := [''parsing sha256:A'', ''parsing sha256:B'']\<rparr>,
         Inr (config,
              [\<lparr>MediaType = ''application/vnd.ollama.image.model'', Digest = ''sha256:A'', status = []\<rparr>,
               \<lparr>MediaType = ''application/vnd.ollama.image.model'', Digest = ''sha256:B'', status = []\<rparr>])) \<and>
      DiffIDs (RootFS config) = [''sha256:A'', ''sha256:B''] \<and>
      Encode_config demo_env config = Inr ''config gguf sha256:A sha256:B'' \<and>
      Digest cl = sha256sum demo_env ''config gguf sha256:A sha256:B'' \<and>
      manifests w'
        = (manifests (demo_world [(''blobs/sha256:A'', ''A''), (''blobs/sha256:B'', ''B'')] []))
            (''library/m'' := Inr \<lparr>Config = cl, Layers =
              [\<lparr>MediaType = ''application/vnd.ollama.image.model'', Digest = ''sha256:A'', status = []\<rparr>,
               \<lparr>MediaType = ''application/vnd.ollama.image.model'', Digest = ''sha256:B'', status = []\<rparr>]\<rparr>) \<and>
      pruned w' = pruned (demo_world [(''blobs/sha256:A'', ''A''), (''blobs/sha256:B'', ''B'')] []) \<and>
      progress w' \<noteq> [] \<and> last (progress w') = ''success''"
proof -
  let ?w = "demo_world [(''blobs/sha256:A'', ''A''), (''blobs/sha256:B'', ''B'')] []"
  let ?w1 = "?w\<lparr>progress := [''parsing sha256:A'', ''parsing sha256:B'']\<rparr>"
  let ?g = "Some \<lparr>Name = ''gguf'', KV_Architecture = ''llama'',
                  KV_ParameterCount = 8030261248, KV_FileType = ''Q4_0''\<rparr>"
  let ?A = "\<lparr>MediaType = ''application/vnd.ollama.image.model'', Digest = ''sha256:A'', status = []\<rparr>"
  let ?B = "\<lparr>MediaType = ''application/vnd.ollama.image.model'', Digest = ''sha256:B'', status = []\<rparr>"
  let ?c0 = "fst (collectBaseLayers demo_env [\<lparr>Layer = ?A, GGML = ?g\<rparr>, \<lparr>Layer = ?B, GGML = ?g\<rparr>]
      (initialConfig, []))"
  have load: "loadBaseLayers demo_env ?w [''sha256:A'', ''sha256:B''] []
      = (?w1, Inr [\<lparr>Layer = ?A, GGML = ?g\<rparr>, \<lparr>Layer = ?B, GGML = ?g\<rparr>])"
    by (simp add: pipeline_defs demo_defs)
  have da: "Digest (Layer \<lparr>Layer = ?A, GGML = ?g\<rparr>) = ''sha256:A''"
    and db: "Digest (Layer \<lparr>Layer = ?B, GGML = ?g\<rparr>) = ''sha256:B''"
    and pa: "\<not> isParamsLayer (Layer \<lparr>Layer = ?A, GGML = ?g\<rparr>)"
    and pb: "\<not> isParamsLayer (Layer \<lparr>Layer = ?B, GGML = ?g\<rparr>)"
    and none: "manifests ?w ''library/m'' = Inl ErrNotExist"
    by (simp_all add: isParamsLayer_def demo_defs)
  have enc: "Encode_config demo_env (?c0\<lparr>RootFS := (RootFS ?c0)\<lparr>DiffIDs := [''sha256:A'', ''sha256:B'']\<rparr>\<rparr>)
      = Inr ''config gguf sha256:A sha256:B''"
    by (simp add: pipeline_defs demo_defs)
  have path: "GetBlobsPath demo_env (sha256sum demo_env ''config gguf sha256:A sha256:B'')
      = Inr ''blobs/sha256:config gguf sha256:A sha256:B''"
    by (simp add: demo_defs)
  have store: "fs ?w ''blobs/sha256:config gguf sha256:A sha256:B'' = Inl ErrNotExist
      \<or> (\<exists>c. fs ?w ''blobs/sha256:config gguf sha256:A sha256:B'' = Inr c)"
    by (simp add: demo_defs)
  have sel: "Layer \<lparr>Layer = ?A, GGML = ?g\<rparr> = ?A" "Layer \<lparr>Layer = ?B, GGML = ?g\<rparr> = ?B"
    by simp_all
  show ?thesis
    by (rule two_file_build[OF load da db pa pb none refl enc path store, unfolded sel])
qed

text \<open>
  C8 as stated fails: two blobs \<^verbatim>\<open>A\<close> and \<^verbatim>\<open>B\<close>, no manifest for the name. The build
  succeeds, the encoded config stored under the digest of the config layer lists the two
  digests, and \<open>RootFS.DiffIDs\<close> is not the list of the two digests and the digest of the
  config layer.
\<close>

theorem two_file_build_counterexample:
  "snd (CreateCommunityModel demo_env
      (demo_world [(''blobs/sha256:A'', ''A''), (''blobs/sha256:B'', ''B'')] [])
      ''library/m'' [''sha256:A'', ''sha256:B'']) = None
   \<and> snd (assemble demo_env
        (demo_world [(''blobs/sha256:A'', ''A''), (''blobs/sha256:B'', ''B'')] [])
        [''sha256:A'', ''sha256:B''])
     = Inr (\<lparr>ModelFormat = ''gguf'', ModelFamily = ''llama'', ModelFamilies = [''llama'', ''llama''],
             ModelType = ''8.0B'', FileType = ''Q4_0'', Architecture = ''amd64'', OS = ''linux'',
             RootFS = \<lparr>Type = ''layers'', DiffIDs = [''sha256:A'', ''sha256:B'']\<rparr>\<rparr>,
            [\<lparr>MediaType = ''application/vnd.ollama.image.model'', Digest = ''sha256:A'', status = []\<rparr>,
             \<lparr>MediaType = ''application/vnd.ollama.image.model'', Digest = ''sha256:B'', status = []\<rparr>])
   \<and> manifests (fst (CreateCommunityModel demo_env
          (demo_world [(''blobs/sha256:A'', ''A''), (''blobs/sha256:B'', ''B'')] [])
          ''library/m'' [''sha256:A'', ''sha256:B''])) ''library/m''
     = Inr \<lparr>Config = \<lparr>MediaType = ''application/vnd.docker.container.image.v1+json'',
                       Digest = ''sha256:config gguf sha256:A sha256:B'',
                       status = ''creating new layer sha256:config gguf sha256:A sha256:B''\<rparr>,
            Layers = [\<lparr>MediaType = ''application/vnd.ollama.image.model'', Digest = ''sha256:A'',
                        status = []\<rparr>,
                      \<lparr>MediaType = ''application/vnd.ollama.image.model'', Digest = ''sha256:B'',
                        status = []\<rparr>]\<rparr>
   \<and> fs (fst (CreateCommunityModel demo_env
          (demo_world [(''blobs/sha256:A'', ''A''), (''blobs/sha256:B'', ''B'')] [])
          ''library/m'' [''sha256:A'', ''sha256:B''])) ''blobs/sha256:config gguf sha256:A sha256:B''
     = Inr ''config gguf sha256:A sha256:B''
   \<and> [''sha256:A'', ''sha256:B'']
     \<noteq> [''sha256:A'', ''sha256:B'', ''sha256:config gguf sha256:A sha256:B'']"
  by (simp add: pipeline_defs demo_defs)

end
